theory Spec2Isabelle
  imports Complex_Main "HOL-Library.Multiset"
begin

section \<open>Python values used by \<open>Datos_organizados.py\<close>\<close>

text \<open>
  A Python \<open>str\<close> is modelled as a \<open>string\<close>, one \<open>char\<close> per code point; the model
  therefore covers the lines whose code points lie below 256. An exception is a value
  of type \<open>error\<close>, and a function that may raise returns \<open>error + 'a\<close>.
  \<open>ValueError\<close> stands for \<^verbatim>\<open>ValueError("Sin registros validos.")\<close>, the only
  \<^verbatim>\<open>raise\<close> statement of the file, and \<open>PandasError\<close> for an exception raised inside a
  pandas call.
\<close>

datatype error = IndexError | ValueError | PandasError

definition bind_err :: "error + 'a \<Rightarrow> ('a \<Rightarrow> error + 'b) \<Rightarrow> error + 'b" where
  "bind_err m f = (case m of Inl e \<Rightarrow> Inl e | Inr x \<Rightarrow> f x)"

text \<open>List subscripts: a negative index counts from the end, an index out of range raises.\<close>

definition norm_index :: "'a list \<Rightarrow> int \<Rightarrow> nat option" where
  "norm_index xs i =
     (let j = (if i < 0 then int (length xs) + i else i)
      in if 0 \<le> j \<and> j < int (length xs) then Some (nat j) else None)"

definition getitem :: "'a list \<Rightarrow> int \<Rightarrow> error + 'a" where
  "getitem xs i = (case norm_index xs i of None \<Rightarrow> Inl IndexError | Some k \<Rightarrow> Inr (xs ! k))"

definition setitem :: "'a list \<Rightarrow> int \<Rightarrow> 'a \<Rightarrow> error + 'a list" where
  "setitem xs i v = (case norm_index xs i of None \<Rightarrow> Inl IndexError | Some k \<Rightarrow> Inr (xs[k := v]))"

text \<open>\<^verbatim>\<open>xs.pop(i)\<close>; the result is the list that is left.\<close>

definition pop_at :: "'a list \<Rightarrow> int \<Rightarrow> error + 'a list" where
  "pop_at xs i =
     (case norm_index xs i of None \<Rightarrow> Inl IndexError | Some k \<Rightarrow> Inr (take k xs @ drop (Suc k) xs))"

subsection \<open>String methods\<close>

text \<open>
  The characters \<^verbatim>\<open>str.strip()\<close> and \<^verbatim>\<open>str.lstrip()\<close> remove when called without
  an argument: TAB, LF, VT, FF, CR, FS, GS, RS, US, SPACE, NEL and NBSP.
\<close>

definition whitespace :: "char list" where
  "whitespace = [CHR 0x09, CHR 0x0A, CHR 0x0B, CHR 0x0C, CHR 0x0D, CHR 0x1C, CHR 0x1D,
                 CHR 0x1E, CHR 0x1F, CHR 0x20, CHR 0x85, CHR 0xA0]"

definition lstrip_chars :: "char list \<Rightarrow> string \<Rightarrow> string" where
  "lstrip_chars cs s = dropWhile (\<lambda>c. c \<in> set cs) s"

definition rstrip_chars :: "char list \<Rightarrow> string \<Rightarrow> string" where
  "rstrip_chars cs s = rev (dropWhile (\<lambda>c. c \<in> set cs) (rev s))"

definition lstrip :: "string \<Rightarrow> string" where
  "lstrip s = lstrip_chars whitespace s"

definition strip :: "string \<Rightarrow> string" where
  "strip s = rstrip_chars whitespace (lstrip_chars whitespace s)"

text \<open>\<^verbatim>\<open>s.replace(c, '')\<close> for a single character \<open>c\<close>.\<close>

definition replace_empty :: "char \<Rightarrow> string \<Rightarrow> string" where
  "replace_empty c s = filter (\<lambda>x. x \<noteq> c) s"

text \<open>\<^verbatim>\<open>s.split(c)\<close>: the pieces between the occurrences of \<open>c\<close>, never an empty list.\<close>

fun split :: "char \<Rightarrow> string \<Rightarrow> string list" where
  "split c [] = [[]]"
| "split c (x # xs) =
     (if x = c then [] # split c xs
      else (case split c xs of p # ps \<Rightarrow> (x # p) # ps | [] \<Rightarrow> [[x]]))"

text \<open>\<^verbatim>\<open>s.split(c, 1)\<close>: at most one cut, at the first occurrence of \<open>c\<close>.\<close>

definition split1 :: "char \<Rightarrow> string \<Rightarrow> string list" where
  "split1 c s =
     (case dropWhile (\<lambda>x. x \<noteq> c) s of
        [] \<Rightarrow> [s]
      | _ # r \<Rightarrow> [takeWhile (\<lambda>x. x \<noteq> c) s, r])"

subsection \<open>The two regular expressions\<close>

text \<open>
  Both patterns are sequences of character classes. \<open>Letter\<close> is \<^verbatim>\<open>[A-Za-z]\<close>,
  \<open>Digit\<close> is \<^verbatim>\<open>\d\<close> (below code point 256 these are the ten ASCII digits), \<open>Hex\<close> is
  \<^verbatim>\<open>[0-9A-Fa-f]\<close> and \<open>Lit c\<close> is the character \<open>c\<close> itself.
\<close>

datatype cls = Letter | Digit | Hex | Lit char

fun in_cls :: "cls \<Rightarrow> char \<Rightarrow> bool" where
  "in_cls Letter x = (x \<in> set ''ABCDEFGHIJKLMNOPQRSTUVWXYZabcdefghijklmnopqrstuvwxyz'')"
| "in_cls Digit x = (x \<in> set ''0123456789'')"
| "in_cls Hex x = (x \<in> set ''0123456789ABCDEFabcdef'')"
| "in_cls (Lit c) x = (x = c)"

text \<open>\<^verbatim>\<open>re.match\<close>: the pattern has to match a prefix of the string.\<close>

fun re_match :: "cls list \<Rightarrow> string \<Rightarrow> bool" where
  "re_match [] s = True"
| "re_match (c # cs) [] = False"
| "re_match (c # cs) (x # xs) = (in_cls c x \<and> re_match cs xs)"

text \<open>\<^verbatim>\<open>^[A-Za-z]{3} \d{2} [A-Za-z]{3} \d{4} \d{2}:\d{2}:\d{2}\<close>\<close>

definition preamble :: "cls list" where
  "preamble =
     replicate 3 Letter @ [Lit CHR '' ''] @ replicate 2 Digit @ [Lit CHR '' ''] @
     replicate 3 Letter @ [Lit CHR '' ''] @ replicate 4 Digit @ [Lit CHR '' ''] @
     replicate 2 Digit @ [Lit CHR '':''] @ replicate 2 Digit @ [Lit CHR '':''] @
     replicate 2 Digit"

text \<open>\<^verbatim>\<open>re.fullmatch(r'[0-9A-Fa-f]{1,2}', s)\<close>: the whole string is one or two hex digits.\<close>

definition fullmatch_hex :: "string \<Rightarrow> bool" where
  "fullmatch_hex s = ((length s = 1 \<or> length s = 2) \<and> list_all (in_cls Hex) s)"

section \<open>\<open>parse_line\<close>\<close>

text \<open>Line 14: \<^verbatim>\<open>line.split(",", 1)[1].lstrip()\<close>.\<close>

definition rest_of :: "string \<Rightarrow> error + string" where
  "rest_of line = bind_err (getitem (split1 CHR '','' line) 1) (\<lambda>r. Inr (lstrip r))"

text \<open>Line 15: the comprehension. The test \<^verbatim>\<open>p != ""\<close> reads the piece as split, before
  the control characters and the white space are taken off it.\<close>

definition clean :: "string \<Rightarrow> string" where
  "clean p = strip (replace_empty (CHR 0x03) (replace_empty (CHR 0x02) p))"

definition tokens :: "string \<Rightarrow> string list" where
  "tokens rest = map clean (filter (\<lambda>p. p \<noteq> '''') (split CHR '','' rest))"

text \<open>Lines 17-18 and 20-21: the two optional pops.\<close>

definition pop_query :: "string list \<Rightarrow> string list" where
  "pop_query parts = (if parts \<noteq> [] \<and> hd parts = ''Q'' then tl parts else parts)"

definition pop_crc :: "string list \<Rightarrow> string list" where
  "pop_crc parts = (if parts \<noteq> [] \<and> fullmatch_hex (last parts) then butlast parts else parts)"

text \<open>Lines 23-29.\<close>

definition finish :: "string list \<Rightarrow> error + string list option" where
  "finish parts =
     (if length parts \<noteq> 13 then Inr None
      else bind_err (getitem parts 5) (\<lambda>p5.
           bind_err (setitem parts 5 (lstrip_chars ''+'' p5)) (\<lambda>parts.
           bind_err (getitem parts 6) (\<lambda>p6.
           bind_err (setitem parts 6 (lstrip_chars ''+'' p6)) (\<lambda>parts.
           bind_err (pop_at parts (- 2)) (\<lambda>parts.
           Inr (Some parts)))))))"

definition parse_line :: "string \<Rightarrow> error + string list option" where
  "parse_line line =
     (if \<not> re_match preamble line then Inr None
      else bind_err (rest_of line) (\<lambda>rest.
           finish (pop_crc (pop_query (tokens rest)))))"

section \<open>\<open>procesar_buffer\<close>\<close>

text \<open>
  The pandas calls of lines 76-82 are modelled on lists of rows, a data frame being the
  list of its rows. What pandas computes is a parameter of the model, each with the
  reach of the call it stands for:
  \<^item> \<open>to_numeric\<close> is \<^verbatim>\<open>pd.to_numeric(..., errors="coerce")\<close> of line 78, applied to a whole
    column: what a cell becomes may depend on the other cells of its column (the
    column has one type). \<open>None\<close> is NaN; the type \<open>'v\<close> is that of the numbers of a
    column, 64-bit floats with the infinities in pandas.
  \<^item> \<open>to_datetime\<close> is \<^verbatim>\<open>pd.to_datetime(..., errors="coerce")\<close> of line 79 together with the
    \<^verbatim>\<open>.dt\<close> accessor of line 81, applied to the whole column: pandas reads the format
    off the first value, and raises for a column it cannot hold as one datetime column
    (values with different UTC offsets). \<open>None\<close> is NaT. A timestamp is the count of
    nanoseconds of its wall-clock reading, in the one UTC offset of the column if it has
    one: nothing is converted to another zone.
  \<^item> \<open>fmean\<close> is the \<^verbatim>\<open>mean()\<close> of line 82 on the numbers of one column of one group, in
    the order of the rows: a computation in 64-bit floats, whose result can be NaN.
  \<open>PandasError\<close> stands for an exception raised inside one of these calls. pandas
  returns a column as long as the one it was given.
\<close>

text \<open>Line 68: the comprehension stops at the first call that raises.\<close>

fun traverse :: "('a \<Rightarrow> error + 'b) \<Rightarrow> 'a list \<Rightarrow> error + 'b list" where
  "traverse f [] = Inr []"
| "traverse f (x # xs) =
     bind_err (f x) (\<lambda>y. bind_err (traverse f xs) (\<lambda>ys. Inr (y # ys)))"

text \<open>Line 69: \<^verbatim>\<open>[f for f in filas if f]\<close>; \<^verbatim>\<open>None\<close> and the empty list are false.\<close>

definition truthy :: "string list option list \<Rightarrow> string list list" where
  "truthy filas = [f. Some f \<leftarrow> filas, f \<noteq> []]"

text \<open>Line 76: column \<open>j\<close> of the frame built from \<open>filas\<close>, whose rows have twelve fields.\<close>

definition column :: "nat \<Rightarrow> string list list \<Rightarrow> string list" where
  "column j filas = map (\<lambda>f. f ! j) filas"

text \<open>Lines 78-79: the ten columns of \<^verbatim>\<open>num\<close> are the first ten of \<^verbatim>\<open>cols\<close>, each
  converted as a column; \<open>fechas\<close> is the converted column 10. Row \<open>i\<close> of the frame holds
  cell \<open>i\<close> of each.\<close>

definition data_frame ::
  "(string list \<Rightarrow> 'v option list) \<Rightarrow> int option list \<Rightarrow> string list list \<Rightarrow>
   ('v option list \<times> int option) list" where
  "data_frame to_numeric fechas filas =
     map (\<lambda>i. (map (\<lambda>j. to_numeric (column j filas) ! i) [0..<10], fechas ! i))
         [0..<length filas]"

text \<open>Line 80: \<^verbatim>\<open>df.dropna(subset=["FechaISO"])\<close>.\<close>

definition dropna :: "('v option list \<times> int option) list \<Rightarrow> ('v option list \<times> int) list" where
  "dropna df = [(v, t). (v, Some t) \<leftarrow> df]"

text \<open>Line 81: \<^verbatim>\<open>.dt.floor("h")\<close>; an hour is 3600 * 10^9 nanoseconds.\<close>

definition floor_h :: "int \<Rightarrow> int" where
  "floor_h t = t - t mod 3600000000000"

definition fecha_hora :: "('v option list \<times> int) list \<Rightarrow> ('v option list \<times> int) list" where
  "fecha_hora df = map (\<lambda>(v, t). (v, floor_h t)) df"

text \<open>Line 82: \<^verbatim>\<open>mean()\<close> of one column of one group skips NaN, and is NaN when nothing is
  left.\<close>

definition mean :: "('v list \<Rightarrow> 'v option) \<Rightarrow> 'v option list \<Rightarrow> 'v option" where
  "mean fmean xs =
     (let vs = [v. Some v \<leftarrow> xs]
      in if vs = [] then None else fmean vs)"

text \<open>Line 82: \<^verbatim>\<open>groupby("FechaHora")\<close> sorts the distinct keys; \<^verbatim>\<open>reset_index()\<close> puts the
  key in front of the ten means.\<close>

definition groupby_mean ::
  "('v list \<Rightarrow> 'v option) \<Rightarrow> ('v option list \<times> int) list \<Rightarrow> (int \<times> 'v option list) list" where
  "groupby_mean fmean df =
     map (\<lambda>k. (k, map (\<lambda>j. mean fmean (map (\<lambda>(v, h). v ! j) (filter (\<lambda>(v, h). h = k) df)))
                      [0..<10]))
         (sort (remdups (map snd df)))"

text \<open>Lines 76-82.\<close>

definition hourly ::
  "(string list \<Rightarrow> 'v option list) \<Rightarrow> (string list \<Rightarrow> error + int option list) \<Rightarrow>
   ('v list \<Rightarrow> 'v option) \<Rightarrow> string list list \<Rightarrow> error + (int \<times> 'v option list) list" where
  "hourly to_numeric to_datetime fmean filas =
     bind_err (to_datetime (column 10 filas)) (\<lambda>fechas.
       Inr (groupby_mean fmean (fecha_hora (dropna (data_frame to_numeric fechas filas)))))"

text \<open>The argument is the list of lines of the upload, each already decoded.\<close>

definition procesar_buffer ::
  "(string list \<Rightarrow> 'v option list) \<Rightarrow> (string list \<Rightarrow> error + int option list) \<Rightarrow>
   ('v list \<Rightarrow> 'v option) \<Rightarrow> string list \<Rightarrow> error + (int \<times> 'v option list) list" where
  "procesar_buffer to_numeric to_datetime fmean lines =
     bind_err (traverse parse_line lines) (\<lambda>filas.
       let filas = truthy filas
       in if filas = [] then Inl ValueError
          else hourly to_numeric to_datetime fmean filas)"

section \<open>Notions used to state the properties\<close>

text \<open>\<^verbatim>\<open>c.join(ps)\<close>, the inverse of \<open>split\<close>.\<close>

fun join :: "char \<Rightarrow> string list \<Rightarrow> string" where
  "join c [] = []"
| "join c [p] = p"
| "join c (p # q # ps) = p @ c # join c (q # ps)"

text \<open>The records that line 69 keeps.\<close>

definition records :: "string list \<Rightarrow> string list list" where
  "records lines = truthy (map (\<lambda>l. case parse_line l of Inl e \<Rightarrow> None | Inr x \<Rightarrow> x) lines)"

text \<open>The hour of row \<open>i\<close>, if it has a timestamp; the rows of the hour \<open>k\<close> among the first
  \<open>n\<close>; and the numbers that the rows \<open>is\<close> have in field \<open>j\<close>.\<close>

definition hour_at :: "int option list \<Rightarrow> nat \<Rightarrow> int option" where
  "hour_at fechas i = map_option floor_h (fechas ! i)"

definition in_hour :: "int option list \<Rightarrow> nat \<Rightarrow> int \<Rightarrow> nat list" where
  "in_hour fechas n k = filter (\<lambda>i. hour_at fechas i = Some k) [0..<n]"

definition present ::
  "(string list \<Rightarrow> 'v option list) \<Rightarrow> nat \<Rightarrow> string list list \<Rightarrow> nat list \<Rightarrow> 'v list" where
  "present to_numeric j filas is = [v. i \<leftarrow> is, Some v \<leftarrow> [to_numeric (column j filas) ! i]]"

text \<open>
  Sample instances of the parameters for the examples. \<open>sample_numeric\<close> and
  \<open>sample_datetime\<close> convert cell by cell and know the strings of the examples only;
  \<open>first_format_datetime\<close> reads the format off the first value of the column, as line 79
  does, and converts the values of that format only; \<open>sample_mean\<close> is the exact mean,
  which is what the float mean gives on the small whole numbers of the examples.
\<close>

definition sample_numeric :: "string \<Rightarrow> rat option" where
  "sample_numeric s =
     (if s = ''20'' then Some 20 else if s = ''22'' then Some 22
      else if s = ''1'' then Some 1 else if s = ''3'' then Some 3 else None)"

definition sample_datetime :: "string \<Rightarrow> int option" where
  "sample_datetime s =
     (if s = ''2024-01-01T10:15:00'' then Some 1704104100000000000
      else if s = ''2024-01-01T10:45:00'' then Some 1704105900000000000
      else if s = ''2024-01-01T09:30:00'' then Some 1704101400000000000
      else None)"

definition sample_slash_datetime :: "string \<Rightarrow> int option" where
  "sample_slash_datetime s =
     (if s = ''01/01/2024 10:45:00'' then Some 1704105900000000000 else None)"

definition first_format_datetime :: "string list \<Rightarrow> error + int option list" where
  "first_format_datetime col =
     (case col of
        [] \<Rightarrow> Inr []
      | s # _ \<Rightarrow>
          if CHR ''/'' \<in> set s then Inr (map sample_slash_datetime col)
          else Inr (map sample_datetime col))"

definition sample_mean :: "rat list \<Rightarrow> rat option" where
  "sample_mean vs = Some (sum_list vs / of_nat (length vs))"

section \<open>Facts about the string and list operations\<close>

lemma list13:
  assumes "length (ts::'a list) = 13"
  shows "\<exists>a0 a1 a2 a3 a4 a5 a6 a7 a8 a9 a10 a11 a12.
           ts = [a0, a1, a2, a3, a4, a5, a6, a7, a8, a9, a10, a11, a12]"
  using assms by (simp add: eval_nat_numeral length_Suc_conv) blast

lemma finish_eq:
  "finish ts =
     (if length ts = 13
      then Inr (Some [ts!0, ts!1, ts!2, ts!3, ts!4, lstrip_chars ''+'' (ts!5),
                      lstrip_chars ''+'' (ts!6), ts!7, ts!8, ts!9, ts!10, ts!12])
      else Inr None)"
proof (cases "length ts = 13")
  case False
  then show ?thesis by (simp add: finish_def)
next
  case True
  obtain a0 a1 a2 a3 a4 a5 a6 a7 a8 a9 a10 a11 a12
    where ts: "ts = [a0, a1, a2, a3, a4, a5, a6, a7, a8, a9, a10, a11, a12]"
    using list13 [OF True] by blast
  show ?thesis
    unfolding ts
    by (simp add: finish_def bind_err_def getitem_def setitem_def pop_at_def norm_index_def)
qed

lemma split1_no_sep:
  assumes "c \<notin> set s"
  shows "split1 c s = [s]"
proof -
  have h: "dropWhile (\<lambda>x. x \<noteq> c) s = []"
    using assms by (auto simp: dropWhile_eq_Nil_conv)
  show ?thesis unfolding split1_def h by simp
qed

lemma split1_sep:
  assumes "c \<notin> set pre"
  shows "split1 c (pre @ c # post) = [pre, post]"
proof -
  have p: "\<And>x. x \<in> set pre \<Longrightarrow> x \<noteq> c" using assms by auto
  have "dropWhile (\<lambda>x. x \<noteq> c) (pre @ c # post) = c # post"
    using p by (simp add: dropWhile_append2)
  moreover have "takeWhile (\<lambda>x. x \<noteq> c) (pre @ c # post) = pre"
    using p by (simp add: takeWhile_append2)
  ultimately show ?thesis by (simp add: split1_def)
qed

lemma cut_at_first:
  assumes "c \<in> set s"
  shows "\<exists>pre post. s = pre @ c # post \<and> c \<notin> set pre"
  using assms by (meson split_list_first)

lemma rest_of_no_comma: "CHR '','' \<notin> set line \<Longrightarrow> rest_of line = Inl IndexError"
  by (simp add: rest_of_def split1_no_sep getitem_def norm_index_def bind_err_def)

lemma rest_of_comma:
  "CHR '','' \<notin> set pre \<Longrightarrow> rest_of (pre @ CHR '','' # post) = Inr (lstrip post)"
  by (simp add: rest_of_def split1_sep getitem_def norm_index_def bind_err_def)

lemma rest_of_Inr:
  assumes "rest_of line = Inr rest"
  shows "\<exists>pre post. line = pre @ CHR '','' # post \<and> CHR '','' \<notin> set pre \<and> rest = lstrip post"
proof (cases "CHR '','' \<in> set line")
  case False
  then show ?thesis using assms by (simp add: rest_of_no_comma)
next
  case True
  then obtain pre post where l: "line = pre @ CHR '','' # post" and n: "CHR '','' \<notin> set pre"
    using cut_at_first [of "CHR '',''" line] by blast
  have "rest_of line = Inr (lstrip post)"
    unfolding l by (rule rest_of_comma [OF n])
  with assms have "rest = lstrip post" by simp
  with l n show ?thesis by blast
qed

lemma parse_line_eq:
  "parse_line line =
     (if \<not> re_match preamble line then Inr None
      else case rest_of line of Inl e \<Rightarrow> Inl e
           | Inr rest \<Rightarrow> finish (pop_crc (pop_query (tokens rest))))"
  by (simp add: parse_line_def bind_err_def)

lemma split_nonempty: "split c s \<noteq> []"
  by (induction s) (auto split: list.splits)

lemma join_split: "join c (split c s) = s"
proof (induction s)
  case Nil
  show ?case by simp
next
  case (Cons x xs)
  obtain p ps where sp: "split c xs = p # ps"
    using split_nonempty [of c xs] by (cases "split c xs") auto
  show ?case using Cons sp by (cases ps) auto
qed

lemma split_pieces: "p \<in> set (split c s) \<Longrightarrow> c \<notin> set p"
  by (induction s arbitrary: p) (auto split: if_splits list.splits)

lemma rstrip_chars_prefix:
  "s = rstrip_chars cs s @ rev (takeWhile (\<lambda>c. c \<in> set cs) (rev s))"
proof -
  let ?P = "\<lambda>c. c \<in> set cs"
  have "rev (takeWhile ?P (rev s) @ dropWhile ?P (rev s)) = rev (rev s)"
    by (simp only: takeWhile_dropWhile_id)
  then have "rev (dropWhile ?P (rev s)) @ rev (takeWhile ?P (rev s)) = s"
    by (simp only: rev_append rev_rev_ident)
  then show ?thesis by (simp add: rstrip_chars_def)
qed

lemma strip_decomp:
  "\<exists>l r. s = l @ strip s @ r \<and> set l \<subseteq> set whitespace \<and> set r \<subseteq> set whitespace"
proof -
  let ?P = "\<lambda>c. c \<in> set whitespace"
  let ?m = "lstrip_chars whitespace s"
  have 1: "s = takeWhile ?P s @ ?m" by (simp add: lstrip_chars_def)
  have 2: "?m = strip s @ rev (takeWhile ?P (rev ?m))"
    unfolding strip_def by (rule rstrip_chars_prefix)
  have 3: "set (takeWhile ?P s) \<subseteq> set whitespace"
    by (auto dest: set_takeWhileD)
  have 4: "set (rev (takeWhile ?P (rev ?m))) \<subseteq> set whitespace"
    by (auto dest: set_takeWhileD)
  from 1 2 have "s = takeWhile ?P s @ strip s @ rev (takeWhile ?P (rev ?m))" by simp
  with 3 4 show ?thesis by blast
qed

lemma strip_ends:
  assumes "strip s \<noteq> []"
  shows "hd (strip s) \<notin> set whitespace \<and> last (strip s) \<notin> set whitespace"
proof -
  let ?P = "\<lambda>c. c \<in> set whitespace"
  let ?m = "lstrip_chars whitespace s"
  have m: "?m = strip s @ rev (takeWhile ?P (rev ?m))"
    unfolding strip_def by (rule rstrip_chars_prefix)
  have "?m \<noteq> []" using assms m by auto
  then have "\<not> ?P (hd ?m)" unfolding lstrip_chars_def by (rule hd_dropWhile)
  moreover have "hd ?m = hd (strip s)" using assms m by (metis hd_append2)
  moreover have "dropWhile ?P (rev ?m) \<noteq> []"
    using assms by (simp add: strip_def rstrip_chars_def)
  then have "\<not> ?P (hd (dropWhile ?P (rev ?m)))" by (rule hd_dropWhile)
  moreover have "last (strip s) = hd (dropWhile ?P (rev ?m))"
    using assms by (simp add: strip_def rstrip_chars_def last_rev)
  ultimately show ?thesis by simp
qed

lemma set_dropWhile_subset: "set (dropWhile P xs) \<subseteq> set xs"
  by (auto dest: set_dropWhileD)

lemma set_strip: "set (strip s) \<subseteq> set s"
proof -
  let ?P = "\<lambda>c. c \<in> set whitespace"
  have "set (strip s) = set (dropWhile ?P (rev (dropWhile ?P s)))"
    by (simp add: strip_def rstrip_chars_def lstrip_chars_def)
  also have "\<dots> \<subseteq> set (rev (dropWhile ?P s))" by (rule set_dropWhile_subset)
  also have "\<dots> = set (dropWhile ?P s)" by simp
  also have "\<dots> \<subseteq> set s" by (rule set_dropWhile_subset)
  finally show ?thesis .
qed

lemma clean_eq: "clean p = strip (filter (\<lambda>x. x \<noteq> CHR 0x02 \<and> x \<noteq> CHR 0x03) p)"
  by (simp add: clean_def replace_empty_def conj_commute)

lemma clean_no_ctrl: "CHR 0x02 \<notin> set (clean p) \<and> CHR 0x03 \<notin> set (clean p)"
  using set_strip [of "filter (\<lambda>x. x \<noteq> CHR 0x02 \<and> x \<noteq> CHR 0x03) p"]
  by (auto simp: clean_eq)

lemma clean_ends: "clean p \<noteq> [] \<Longrightarrow> hd (clean p) \<notin> set whitespace \<and> last (clean p) \<notin> set whitespace"
  unfolding clean_def by (rule strip_ends)

lemma clean_empty_iff:
  "clean p = [] \<longleftrightarrow> set p \<subseteq> set whitespace \<union> {CHR 0x02, CHR 0x03}"
proof
  assume e: "clean p = []"
  obtain l r where d: "filter (\<lambda>x. x \<noteq> CHR 0x02 \<and> x \<noteq> CHR 0x03) p = l @ clean p @ r"
      "set l \<subseteq> set whitespace" "set r \<subseteq> set whitespace"
    using strip_decomp [of "filter (\<lambda>x. x \<noteq> CHR 0x02 \<and> x \<noteq> CHR 0x03) p"]
    unfolding clean_eq by blast
  have "set (filter (\<lambda>x. x \<noteq> CHR 0x02 \<and> x \<noteq> CHR 0x03) p) \<subseteq> set whitespace"
    using d e by (metis append_Nil le_sup_iff set_append)
  then show "set p \<subseteq> set whitespace \<union> {CHR 0x02, CHR 0x03}" by auto
next
  assume s: "set p \<subseteq> set whitespace \<union> {CHR 0x02, CHR 0x03}"
  let ?f = "filter (\<lambda>x. x \<noteq> CHR 0x02 \<and> x \<noteq> CHR 0x03) p"
  have "set ?f \<subseteq> set whitespace" using s by auto
  then have "lstrip_chars whitespace ?f = []"
    by (auto simp: lstrip_chars_def dropWhile_eq_Nil_conv)
  then show "clean p = []" by (simp add: clean_eq strip_def rstrip_chars_def)
qed

section \<open>Properties of \<open>parse_line\<close>\<close>

lemma pop_query_eq:
  "pop_query ts = drop (if ts \<noteq> [] \<and> hd ts = ''Q'' then 1 else 0) ts"
  by (simp add: pop_query_def drop_Suc)

lemma pop_crc_eq:
  "pop_crc us = take (length us - (if us \<noteq> [] \<and> fullmatch_hex (last us) then 1 else 0)) us"
  by (simp add: pop_crc_def butlast_conv_take)

lemma parse_line_Some:
  assumes "parse_line line = Inr (Some r)"
  shows "re_match preamble line \<and>
         (\<exists>rest. rest_of line = Inr rest \<and> finish (pop_crc (pop_query (tokens rest))) = Inr (Some r))"
  using assms by (auto simp: parse_line_eq split: if_splits sum.splits)

lemma finish_Some:
  "finish ts = Inr (Some r) \<longleftrightarrow>
     length ts = 13 \<and>
     r = [ts!0, ts!1, ts!2, ts!3, ts!4, lstrip_chars ''+'' (ts!5),
          lstrip_chars ''+'' (ts!6), ts!7, ts!8, ts!9, ts!10, ts!12]"
  by (auto simp: finish_eq)

lemma finish_never_raises: "\<exists>res. finish ts = Inr res"
  by (simp add: finish_eq)

lemma parse_line_comma:
  assumes "CHR '','' \<in> set line"
  shows "\<exists>res. parse_line line = Inr res"
proof -
  obtain pre post where "line = pre @ CHR '','' # post" "CHR '','' \<notin> set pre"
    using cut_at_first [OF assms] by blast
  then have "rest_of line = Inr (lstrip post)" by (simp add: rest_of_comma)
  then show ?thesis using finish_never_raises by (simp add: parse_line_eq)
qed

lemma parse_line_error:
  assumes "parse_line line = Inl e"
  shows "e = IndexError"
proof (cases "CHR '','' \<in> set line")
  case True
  then show ?thesis using parse_line_comma [of line] assms by auto
next
  case False
  then have "rest_of line = Inl IndexError" by (rule rest_of_no_comma)
  then show ?thesis using assms by (simp add: parse_line_eq split: if_splits)
qed

text \<open>
  C1. When \<open>parse_line\<close> returns a record, the tokens left after the clean-up and the
  removal of the two markers are exactly 13, the record has exactly 12 fields, and they
  are those tokens in their order without the one at index 11 (fields 5 and 6 without
  their leading plus signs). When the number of those tokens is not 13, the line is
  rejected. There is no result between a 12-field record and nothing.
\<close>

theorem parse_line_record:
  "(parse_line line = Inr (Some r) \<longrightarrow>
      (\<exists>rest ts. rest_of line = Inr rest \<and> ts = pop_crc (pop_query (tokens rest)) \<and>
         length ts = 13 \<and> length r = 12 \<and>
         r = [ts!0, ts!1, ts!2, ts!3, ts!4, lstrip_chars ''+'' (ts!5),
              lstrip_chars ''+'' (ts!6), ts!7, ts!8, ts!9, ts!10, ts!12] \<and>
         r = take 11 (ts[5 := r!5, 6 := r!6]) @ drop 12 ts)) \<and>
   (\<forall>rest. rest_of line = Inr rest \<and> length (pop_crc (pop_query (tokens rest))) \<noteq> 13 \<longrightarrow>
      parse_line line = Inr None)"
proof (intro conjI impI allI)
  assume a: "parse_line line = Inr (Some r)"
  then obtain rest where r: "rest_of line = Inr rest"
      and f: "finish (pop_crc (pop_query (tokens rest))) = Inr (Some r)"
    using parse_line_Some by blast
  let ?ts = "pop_crc (pop_query (tokens rest))"
  from f have l: "length ?ts = 13"
    and e: "r = [?ts!0, ?ts!1, ?ts!2, ?ts!3, ?ts!4, lstrip_chars ''+'' (?ts!5),
              lstrip_chars ''+'' (?ts!6), ?ts!7, ?ts!8, ?ts!9, ?ts!10, ?ts!12]"
    by (simp_all add: finish_Some)
  obtain a0 a1 a2 a3 a4 a5 a6 a7 a8 a9 a10 a11 a12
    where ts: "?ts = [a0, a1, a2, a3, a4, a5, a6, a7, a8, a9, a10, a11, a12]"
    using list13 [OF l] by blast
  have t: "r = take 11 (?ts[5 := r!5, 6 := r!6]) @ drop 12 ?ts"
    using e unfolding ts by simp
  have "length r = 12" using e by simp
  with r l e t show "\<exists>rest ts. rest_of line = Inr rest \<and> ts = pop_crc (pop_query (tokens rest)) \<and>
         length ts = 13 \<and> length r = 12 \<and>
         r = [ts!0, ts!1, ts!2, ts!3, ts!4, lstrip_chars ''+'' (ts!5),
              lstrip_chars ''+'' (ts!6), ts!7, ts!8, ts!9, ts!10, ts!12] \<and>
         r = take 11 (ts[5 := r!5, 6 := r!6]) @ drop 12 ts"
    by blast
next
  fix rest
  assume "rest_of line = Inr rest \<and> length (pop_crc (pop_query (tokens rest))) \<noteq> 13"
  then show "parse_line line = Inr None"
    by (simp add: parse_line_eq finish_eq)
qed

theorem parse_line_record_witness:
  "parse_line ''Mon 01 Jan 2024 10:00:00, Q,270,3.4,268,1013.2,56.1,+21.5,++12.3,0.0,0.0,512,2024-01-01T10:15:00,X7,0,3F''
     = Inr (Some [''270'', ''3.4'', ''268'', ''1013.2'', ''56.1'', ''21.5'', ''12.3'', ''0.0'',
                  ''0.0'', ''512'', ''2024-01-01T10:15:00'', ''0'']) \<and>
   length (pop_crc (pop_query (tokens
     ''Q,270,3.4,268,1013.2,56.1,+21.5,++12.3,0.0,0.0,512,2024-01-01T10:15:00,X7,0,3F''))) = 13 \<and>
   rest_of ''Mon 01 Jan 2024 10:00:00,270,3.4'' = Inr ''270,3.4'' \<and>
   length (pop_crc (pop_query (tokens ''270,3.4''))) \<noteq> 13 \<and>
   parse_line ''Mon 01 Jan 2024 10:00:00,270,3.4'' = Inr None"
proof -
  let ?l = "''Mon 01 Jan 2024 10:00:00, Q,270,3.4,268,1013.2,56.1,+21.5,++12.3,0.0,0.0,512,2024-01-01T10:15:00,X7,0,3F''"
  let ?r = "[''270'', ''3.4'', ''268'', ''1013.2'', ''56.1'', ''21.5'', ''12.3'', ''0.0'',
             ''0.0'', ''512'', ''2024-01-01T10:15:00'', ''0'']"
  have p: "parse_line ?l = Inr (Some ?r)" by code_simp
  have q: "rest_of ?l = Inr ''Q,270,3.4,268,1013.2,56.1,+21.5,++12.3,0.0,0.0,512,2024-01-01T10:15:00,X7,0,3F''"
    by code_simp
  have "length (pop_crc (pop_query (tokens
     ''Q,270,3.4,268,1013.2,56.1,+21.5,++12.3,0.0,0.0,512,2024-01-01T10:15:00,X7,0,3F''))) = 13"
    using parse_line_record [of ?l ?r] p q by auto
  moreover have s: "rest_of ''Mon 01 Jan 2024 10:00:00,270,3.4'' = Inr ''270,3.4''" by code_simp
  moreover have n: "length (pop_crc (pop_query (tokens ''270,3.4''))) \<noteq> 13" by code_simp
  moreover have "parse_line ''Mon 01 Jan 2024 10:00:00,270,3.4'' = Inr None"
    using parse_line_record [of "''Mon 01 Jan 2024 10:00:00,270,3.4''"] s n by blast
  ultimately show ?thesis using p by blast
qed

text \<open>
  C2. The line \<^verbatim>\<open>Mon 01 Jan 2024 10:00:00\<close> passes the test of line 11, whose pattern
  does not ask for the comma, and has no comma: the subscript \<^verbatim>\<open>[1]\<close> of line 14 raises
  \<^verbatim>\<open>IndexError\<close>.
\<close>

theorem parse_line_no_comma_raises:
  "parse_line ''Mon 01 Jan 2024 10:00:00'' = Inl IndexError"
  by code_simp

text \<open>
  C10. A line that passes the test of line 11 and has, after the clean-up and the removal
  of a leading \<^verbatim>\<open>Q\<close>, exactly 13 tokens of which the last is one or two hex digits, is
  rejected: the last token is popped as a checksum and 12 tokens fail the test of line 23.
\<close>

theorem hex_final_field_rejected:
  assumes "re_match preamble line"
    and "rest_of line = Inr rest"
    and "length (pop_query (tokens rest)) = 13"
    and "fullmatch_hex (last (pop_query (tokens rest)))"
  shows "pop_crc (pop_query (tokens rest)) = butlast (pop_query (tokens rest)) \<and>
         length (pop_crc (pop_query (tokens rest))) = 12 \<and>
         parse_line line = Inr None"
proof -
  let ?ts = "pop_query (tokens rest)"
  have ne: "?ts \<noteq> []" using assms(3) by auto
  then have c: "pop_crc ?ts = butlast ?ts" using assms(4) by (simp add: pop_crc_def)
  then have l: "length (pop_crc ?ts) = 12" using assms(3) by simp
  then have "finish (pop_crc ?ts) = Inr None" by (simp add: finish_eq)
  then have "parse_line line = Inr None" using assms(1,2) by (simp add: parse_line_eq)
  with c l show ?thesis by blast
qed

theorem hex_final_field_rejected_witness:
  "re_match preamble ''Mon 01 Jan 2024 10:00:00,270,3.4,268,1013.2,56.1,+21.5,+12.3,0.0,0.0,512,2024-01-01T10:15:00,X7,0'' \<and>
   rest_of ''Mon 01 Jan 2024 10:00:00,270,3.4,268,1013.2,56.1,+21.5,+12.3,0.0,0.0,512,2024-01-01T10:15:00,X7,0''
     = Inr ''270,3.4,268,1013.2,56.1,+21.5,+12.3,0.0,0.0,512,2024-01-01T10:15:00,X7,0'' \<and>
   length (pop_query (tokens ''270,3.4,268,1013.2,56.1,+21.5,+12.3,0.0,0.0,512,2024-01-01T10:15:00,X7,0'')) = 13 \<and>
   fullmatch_hex (last (pop_query (tokens ''270,3.4,268,1013.2,56.1,+21.5,+12.3,0.0,0.0,512,2024-01-01T10:15:00,X7,0''))) \<and>
   parse_line ''Mon 01 Jan 2024 10:00:00,270,3.4,268,1013.2,56.1,+21.5,+12.3,0.0,0.0,512,2024-01-01T10:15:00,X7,0'' = Inr None"
proof -
  let ?l = "''Mon 01 Jan 2024 10:00:00,270,3.4,268,1013.2,56.1,+21.5,+12.3,0.0,0.0,512,2024-01-01T10:15:00,X7,0''"
  let ?r = "''270,3.4,268,1013.2,56.1,+21.5,+12.3,0.0,0.0,512,2024-01-01T10:15:00,X7,0''"
  have 1: "re_match preamble ?l" by code_simp
  have 2: "rest_of ?l = Inr ?r" by code_simp
  have 3: "length (pop_query (tokens ?r)) = 13" by code_simp
  have 4: "fullmatch_hex (last (pop_query (tokens ?r)))" by code_simp
  from hex_final_field_rejected [OF 1 2 3 4] have "parse_line ?l = Inr None" by blast
  with 1 2 3 4 show ?thesis by blast
qed


text \<open>
  C5 (as stated). The tenth data field of this line is a single blank. It is not the empty
  string when line 15 tests it, so it is kept, and stripping then makes it the empty
  string: the token list and the record both contain an empty token.
\<close>

theorem blank_token_kept:
  "re_match preamble
     ''Mon 01 Jan 2024 10:00:00,270,3.4,268,1013.2,56.1,+21.5,+12.3,0.0,0.0, ,2024-01-01T10:15:00,X7,0,3F'' \<and>
   rest_of
     ''Mon 01 Jan 2024 10:00:00,270,3.4,268,1013.2,56.1,+21.5,+12.3,0.0,0.0, ,2024-01-01T10:15:00,X7,0,3F''
     = Inr ''270,3.4,268,1013.2,56.1,+21.5,+12.3,0.0,0.0, ,2024-01-01T10:15:00,X7,0,3F'' \<and>
   tokens ''270,3.4,268,1013.2,56.1,+21.5,+12.3,0.0,0.0, ,2024-01-01T10:15:00,X7,0,3F''
     = [''270'', ''3.4'', ''268'', ''1013.2'', ''56.1'', ''+21.5'', ''+12.3'', ''0.0'', ''0.0'',
        '''', ''2024-01-01T10:15:00'', ''X7'', ''0'', ''3F''] \<and>
   parse_line
     ''Mon 01 Jan 2024 10:00:00,270,3.4,268,1013.2,56.1,+21.5,+12.3,0.0,0.0, ,2024-01-01T10:15:00,X7,0,3F''
     = Inr (Some [''270'', ''3.4'', ''268'', ''1013.2'', ''56.1'', ''21.5'', ''12.3'', ''0.0'',
                  ''0.0'', '''', ''2024-01-01T10:15:00'', ''0''])"
  by code_simp

text \<open>
  C5 (amended). For a line that passes the test of line 11 and has a comma, \<open>rest\<close> is what
  follows the first comma without its leading white space; it is cut at every comma;
  the pieces that are empty as cut are dropped; every other piece loses all its STX and
  ETX characters and then the white space around it, and is kept even when nothing is
  left of it. A token is empty exactly when its piece held only white space, STX and ETX.
\<close>

theorem tokens_of_line:
  assumes "re_match preamble line" and "rest_of line = Inr rest"
  shows "(\<exists>pre post. line = pre @ CHR '','' # post \<and> CHR '','' \<notin> set pre \<and>
            rest = dropWhile (\<lambda>c. c \<in> set whitespace) post) \<and>
         join CHR '','' (split CHR '','' rest) = rest \<and>
         (\<forall>p\<in>set (split CHR '','' rest). CHR '','' \<notin> set p) \<and>
         tokens rest = map clean (filter (\<lambda>p. p \<noteq> []) (split CHR '','' rest)) \<and>
         (\<forall>p. \<exists>l r. filter (\<lambda>x. x \<noteq> CHR 0x02 \<and> x \<noteq> CHR 0x03) p = l @ clean p @ r \<and>
            set l \<subseteq> set whitespace \<and> set r \<subseteq> set whitespace \<and>
            (clean p \<noteq> [] \<longrightarrow> hd (clean p) \<notin> set whitespace \<and> last (clean p) \<notin> set whitespace)) \<and>
         (\<forall>p. clean p = [] \<longleftrightarrow> set p \<subseteq> set whitespace \<union> {CHR 0x02, CHR 0x03})"
proof (intro conjI allI ballI)
  show "\<exists>pre post. line = pre @ CHR '','' # post \<and> CHR '','' \<notin> set pre \<and>
            rest = dropWhile (\<lambda>c. c \<in> set whitespace) post"
    using rest_of_Inr [OF assms(2)] by (simp add: lstrip_def lstrip_chars_def)
  show "join CHR '','' (split CHR '','' rest) = rest" by (rule join_split)
  show "tokens rest = map clean (filter (\<lambda>p. p \<noteq> []) (split CHR '','' rest))"
    by (simp add: tokens_def)
next
  fix p assume "p \<in> set (split CHR '','' rest)"
  then show "CHR '','' \<notin> set p" by (rule split_pieces)
next
  fix p
  show "\<exists>l r. filter (\<lambda>x. x \<noteq> CHR 0x02 \<and> x \<noteq> CHR 0x03) p = l @ clean p @ r \<and>
            set l \<subseteq> set whitespace \<and> set r \<subseteq> set whitespace \<and>
            (clean p \<noteq> [] \<longrightarrow> hd (clean p) \<notin> set whitespace \<and> last (clean p) \<notin> set whitespace)"
    using strip_decomp [of "filter (\<lambda>x. x \<noteq> CHR 0x02 \<and> x \<noteq> CHR 0x03) p"] clean_ends [of p]
    unfolding clean_eq by blast
next
  fix p
  show "clean p = [] \<longleftrightarrow> set p \<subseteq> set whitespace \<union> {CHR 0x02, CHR 0x03}"
    by (rule clean_empty_iff)
qed

theorem tokens_of_line_witness:
  "re_match preamble (''Tue 02 Jan 2024 07:30:00, '' @ CHR 0x02 # ''Q,270,, ,3.4 '' @ [CHR 0x03]) \<and>
   rest_of (''Tue 02 Jan 2024 07:30:00, '' @ CHR 0x02 # ''Q,270,, ,3.4 '' @ [CHR 0x03])
     = Inr (CHR 0x02 # ''Q,270,, ,3.4 '' @ [CHR 0x03]) \<and>
   join CHR '','' (split CHR '','' (CHR 0x02 # ''Q,270,, ,3.4 '' @ [CHR 0x03]))
     = CHR 0x02 # ''Q,270,, ,3.4 '' @ [CHR 0x03] \<and>
   tokens (CHR 0x02 # ''Q,270,, ,3.4 '' @ [CHR 0x03]) = [''Q'', ''270'', '''', ''3.4'']"
proof -
  let ?l = "''Tue 02 Jan 2024 07:30:00, '' @ CHR 0x02 # ''Q,270,, ,3.4 '' @ [CHR 0x03]"
  let ?r = "CHR 0x02 # ''Q,270,, ,3.4 '' @ [CHR 0x03]"
  have 1: "re_match preamble ?l" by code_simp
  have 2: "rest_of ?l = Inr ?r" by code_simp
  have 3: "join CHR '','' (split CHR '','' ?r) = ?r"
    using tokens_of_line [OF 1 2] by blast
  have 4: "tokens ?r = [''Q'', ''270'', '''', ''3.4'']" by code_simp
  from 1 2 3 4 show ?thesis by blast
qed

text \<open>
  C6. A first token \<^verbatim>\<open>Q\<close> is popped, and then a last token of one or two hex digits is
  popped, whatever its value. When a record is returned, \<open>q\<close> tokens were popped in
  front and \<open>c\<close> at the end, 13 tokens lie between them, and the twelve fields are read
  at the positions \<open>q\<close> to \<open>q + 12\<close> of the token list, \<open>q + 11\<close> left out: the position of
  a popped token is not among them.
\<close>

theorem markers_removed:
  "(ts \<noteq> [] \<and> hd ts = ''Q'' \<longrightarrow> pop_query ts = tl ts) \<and>
   (us \<noteq> [] \<and> fullmatch_hex (last us) \<longrightarrow> pop_crc us = butlast us) \<and>
   (rest_of line = Inr rest \<and> parse_line line = Inr (Some r) \<longrightarrow>
      (\<exists>q c toks. toks = tokens rest \<and>
         q = (if toks \<noteq> [] \<and> hd toks = ''Q'' then 1 else 0) \<and>
         c = (if drop q toks \<noteq> [] \<and> fullmatch_hex (last (drop q toks)) then 1 else 0) \<and>
         pop_query toks = drop q toks \<and>
         pop_crc (drop q toks) = take 13 (drop q toks) \<and>
         length toks = q + 13 + c \<and>
         r = [toks ! q, toks ! (q + 1), toks ! (q + 2), toks ! (q + 3), toks ! (q + 4),
              lstrip_chars ''+'' (toks ! (q + 5)), lstrip_chars ''+'' (toks ! (q + 6)),
              toks ! (q + 7), toks ! (q + 8), toks ! (q + 9), toks ! (q + 10),
              toks ! (q + 12)]))"
proof (intro conjI impI)
  assume "ts \<noteq> [] \<and> hd ts = ''Q''"
  then show "pop_query ts = tl ts" by (simp add: pop_query_def)
next
  assume "us \<noteq> [] \<and> fullmatch_hex (last us)"
  then show "pop_crc us = butlast us" by (simp add: pop_crc_def)
next
  assume a: "rest_of line = Inr rest \<and> parse_line line = Inr (Some r)"
  define toks where "toks = tokens rest"
  define q :: nat where "q = (if toks \<noteq> [] \<and> hd toks = ''Q'' then 1 else 0)"
  define c :: nat where
    "c = (if drop q toks \<noteq> [] \<and> fullmatch_hex (last (drop q toks)) then 1 else 0)"
  have pq: "pop_query toks = drop q toks"
    unfolding q_def by (rule pop_query_eq)
  have pc: "pop_crc (drop q toks) = take (length (drop q toks) - c) (drop q toks)"
    unfolding c_def by (rule pop_crc_eq)
  from a have f: "finish (pop_crc (pop_query toks)) = Inr (Some r)"
    using parse_line_Some [of line r] by (auto simp: toks_def)
  then have l: "length (pop_crc (drop q toks)) = 13"
    and e: "r = [pop_crc (drop q toks) ! 0, pop_crc (drop q toks) ! 1, pop_crc (drop q toks) ! 2,
                 pop_crc (drop q toks) ! 3, pop_crc (drop q toks) ! 4,
                 lstrip_chars ''+'' (pop_crc (drop q toks) ! 5),
                 lstrip_chars ''+'' (pop_crc (drop q toks) ! 6),
                 pop_crc (drop q toks) ! 7, pop_crc (drop q toks) ! 8, pop_crc (drop q toks) ! 9,
                 pop_crc (drop q toks) ! 10, pop_crc (drop q toks) ! 12]"
    unfolding pq by (simp_all add: finish_Some)
  have cpos: "c \<le> length (drop q toks)" by (auto simp: c_def Suc_le_eq)
  from l pc have n: "length (drop q toks) - c = 13" by simp
  with cpos have len: "length toks = q + 13 + c" by simp
  have t13: "pop_crc (drop q toks) = take 13 (drop q toks)" using pc n by simp
  have nth: "\<And>i. i < 13 \<Longrightarrow> pop_crc (drop q toks) ! i = toks ! (q + i)"
    using len by (simp add: t13)
  have r: "r = [toks ! q, toks ! (q + 1), toks ! (q + 2), toks ! (q + 3), toks ! (q + 4),
              lstrip_chars ''+'' (toks ! (q + 5)), lstrip_chars ''+'' (toks ! (q + 6)),
              toks ! (q + 7), toks ! (q + 8), toks ! (q + 9), toks ! (q + 10),
              toks ! (q + 12)]"
    using e by (simp add: nth)
  show "\<exists>q c toks. toks = tokens rest \<and>
         q = (if toks \<noteq> [] \<and> hd toks = ''Q'' then 1 else 0) \<and>
         c = (if drop q toks \<noteq> [] \<and> fullmatch_hex (last (drop q toks)) then 1 else 0) \<and>
         pop_query toks = drop q toks \<and>
         pop_crc (drop q toks) = take 13 (drop q toks) \<and>
         length toks = q + 13 + c \<and>
         r = [toks ! q, toks ! (q + 1), toks ! (q + 2), toks ! (q + 3), toks ! (q + 4),
              lstrip_chars ''+'' (toks ! (q + 5)), lstrip_chars ''+'' (toks ! (q + 6)),
              toks ! (q + 7), toks ! (q + 8), toks ! (q + 9), toks ! (q + 10),
              toks ! (q + 12)]"
    using toks_def q_def c_def pq t13 len r by blast
qed

theorem markers_removed_witness:
  "rest_of ''Wed 03 Jan 2024 12:00:00,Q,181,2.0,180,1009.8,71.0,-1.5,-4.0,0.2,0.1,88,2024-01-03T12:00:00,X7,1,A9''
     = Inr ''Q,181,2.0,180,1009.8,71.0,-1.5,-4.0,0.2,0.1,88,2024-01-03T12:00:00,X7,1,A9'' \<and>
   parse_line ''Wed 03 Jan 2024 12:00:00,Q,181,2.0,180,1009.8,71.0,-1.5,-4.0,0.2,0.1,88,2024-01-03T12:00:00,X7,1,A9''
     = Inr (Some [''181'', ''2.0'', ''180'', ''1009.8'', ''71.0'', ''-1.5'', ''-4.0'', ''0.2'', ''0.1'',
                  ''88'', ''2024-01-03T12:00:00'', ''1'']) \<and>
   length (tokens ''Q,181,2.0,180,1009.8,71.0,-1.5,-4.0,0.2,0.1,88,2024-01-03T12:00:00,X7,1,A9'') = 15 \<and>
   pop_query [''Q'', ''181''] = [''181''] \<and>
   pop_crc [''1'', ''A9''] = [''1'']"
proof -
  let ?l = "''Wed 03 Jan 2024 12:00:00,Q,181,2.0,180,1009.8,71.0,-1.5,-4.0,0.2,0.1,88,2024-01-03T12:00:00,X7,1,A9''"
  let ?t = "''Q,181,2.0,180,1009.8,71.0,-1.5,-4.0,0.2,0.1,88,2024-01-03T12:00:00,X7,1,A9''"
  let ?r = "[''181'', ''2.0'', ''180'', ''1009.8'', ''71.0'', ''-1.5'', ''-4.0'', ''0.2'', ''0.1'',
             ''88'', ''2024-01-03T12:00:00'', ''1'']"
  have 1: "rest_of ?l = Inr ?t" by code_simp
  have 2: "parse_line ?l = Inr (Some ?r)" by code_simp
  have h: "hd (tokens ?t) = ''Q'' \<and> tokens ?t \<noteq> []" by code_simp
  have x: "fullmatch_hex (last (drop 1 (tokens ?t))) \<and> drop 1 (tokens ?t) \<noteq> []" by code_simp
  have 3: "length (tokens ?t) = 15"
    using markers_removed [of _ _ ?l ?t ?r] 1 2 h x by auto
  have q: "[''Q'', ''181''] \<noteq> [] \<and> hd [''Q'', ''181''] = ''Q''" by simp
  have 4: "pop_query [''Q'', ''181''] = [''181'']"
    using markers_removed [of "[''Q'', ''181'']"] q by simp
  have k: "[''1'', ''A9''] \<noteq> [] \<and> fullmatch_hex (last [''1'', ''A9''])" by code_simp
  have 5: "pop_crc [''1'', ''A9''] = [''1'']"
    using markers_removed [of _ "[''1'', ''A9'']"] k by simp
  from 1 2 3 4 5 show ?thesis by blast
qed

section \<open>Properties of \<open>procesar_buffer\<close>\<close>


lemma traverse_parse_line:
  "traverse parse_line lines =
     (if \<exists>l\<in>set lines. parse_line l = Inl IndexError then Inl IndexError
      else Inr (map (\<lambda>l. case parse_line l of Inl e \<Rightarrow> None | Inr x \<Rightarrow> x) lines))"
proof (induction lines)
  case Nil
  show ?case by simp
next
  case (Cons l ls)
  show ?case
  proof (cases "parse_line l")
    case (Inl e)
    then have "e = IndexError" by (rule parse_line_error)
    then show ?thesis using Inl by (simp add: bind_err_def)
  next
    case (Inr x)
    then show ?thesis using Cons.IH by (simp add: bind_err_def)
  qed
qed

lemma record_has_12_fields: "parse_line l = Inr (Some r) \<Longrightarrow> length r = 12"
  using parse_line_Some [of l r] by (auto simp: finish_Some)

lemma truthy_empty: "truthy fs = [] \<longleftrightarrow> (\<forall>x\<in>set fs. x = None \<or> x = Some [])"
  unfolding truthy_def by (induction fs) (auto split: option.splits)

lemma procesar_buffer_eq:
  "procesar_buffer N D M lines =
     (if \<exists>l\<in>set lines. parse_line l = Inl IndexError then Inl IndexError
      else if records lines = [] then Inl ValueError else hourly N D M (records lines))"
  by (simp add: procesar_buffer_def traverse_parse_line bind_err_def records_def Let_def)

lemma records_empty:
  "records lines = [] \<longleftrightarrow> (\<forall>l\<in>set lines. \<forall>r. parse_line l \<noteq> Inr (Some r))"
proof
  assume e: "records lines = []"
  show "\<forall>l\<in>set lines. \<forall>r. parse_line l \<noteq> Inr (Some r)"
  proof (intro ballI allI notI)
    fix l r assume l: "l \<in> set lines" and p: "parse_line l = Inr (Some r)"
    then have "Some r \<in> set (map (\<lambda>l. case parse_line l of Inl e \<Rightarrow> None | Inr x \<Rightarrow> x) lines)"
      by force
    then have "r = []" using e unfolding records_def truthy_empty by blast
    moreover have "length r = 12" using p by (rule record_has_12_fields)
    ultimately show False by simp
  qed
next
  assume a: "\<forall>l\<in>set lines. \<forall>r. parse_line l \<noteq> Inr (Some r)"
  have "\<forall>x\<in>set (map (\<lambda>l. case parse_line l of Inl e \<Rightarrow> None | Inr x \<Rightarrow> x) lines). x = None \<or> x = Some []"
  proof
    fix x assume "x \<in> set (map (\<lambda>l. case parse_line l of Inl e \<Rightarrow> None | Inr x \<Rightarrow> x) lines)"
    then obtain l where l: "l \<in> set lines" and x: "x = (case parse_line l of Inl e \<Rightarrow> None | Inr x \<Rightarrow> x)"
      by auto
    show "x = None \<or> x = Some []"
    proof (cases "parse_line l")
      case (Inl e)
      then show ?thesis using x by simp
    next
      case (Inr y)
      then have "y = None" using a l by (cases y) auto
      then show ?thesis using x Inr by simp
    qed
  qed
  then show "records lines = []" unfolding records_def truthy_empty .
qed

lemma rows_eq:
  "fecha_hora (dropna (data_frame N fechas filas)) =
     concat (map (\<lambda>i. case hour_at fechas i of None \<Rightarrow> []
                      | Some h \<Rightarrow> [(map (\<lambda>j. N (column j filas) ! i) [0..<10], h)])
                 [0..<length filas])"
proof -
  have "\<And>is. fecha_hora (dropna (map (\<lambda>i. (map (\<lambda>j. N (column j filas) ! i) [0..<10], fechas ! i)) is)) =
     concat (map (\<lambda>i. case hour_at fechas i of None \<Rightarrow> []
                      | Some h \<Rightarrow> [(map (\<lambda>j. N (column j filas) ! i) [0..<10], h)]) is)"
  proof -
    fix "is" :: "nat list"
    show "fecha_hora (dropna (map (\<lambda>i. (map (\<lambda>j. N (column j filas) ! i) [0..<10], fechas ! i)) is)) =
     concat (map (\<lambda>i. case hour_at fechas i of None \<Rightarrow> []
                      | Some h \<Rightarrow> [(map (\<lambda>j. N (column j filas) ! i) [0..<10], h)]) is)"
      by (induction "is")
         (auto simp: fecha_hora_def dropna_def hour_at_def split: option.splits)
  qed
  then show ?thesis unfolding data_frame_def .
qed

lemma set_rows_keys:
  "set (map snd (fecha_hora (dropna (data_frame N fechas filas)))) =
     {k. \<exists>i<length filas. hour_at fechas i = Some k}"
proof -
  have "\<And>is. map snd (concat (map (\<lambda>i. case hour_at fechas i of None \<Rightarrow> []
                      | Some h \<Rightarrow> [(map (\<lambda>j. N (column j filas) ! i) [0..<10], h)]) is)) =
        concat (map (\<lambda>i. case hour_at fechas i of None \<Rightarrow> [] | Some h \<Rightarrow> [h]) is)"
  proof -
    fix "is" :: "nat list"
    show "map snd (concat (map (\<lambda>i. case hour_at fechas i of None \<Rightarrow> []
                      | Some h \<Rightarrow> [(map (\<lambda>j. N (column j filas) ! i) [0..<10], h)]) is)) =
        concat (map (\<lambda>i. case hour_at fechas i of None \<Rightarrow> [] | Some h \<Rightarrow> [h]) is)"
      by (induction "is") (auto split: option.splits)
  qed
  then have "map snd (fecha_hora (dropna (data_frame N fechas filas))) =
        concat (map (\<lambda>i. case hour_at fechas i of None \<Rightarrow> [] | Some h \<Rightarrow> [h]) [0..<length filas])"
    unfolding rows_eq .
  then show ?thesis by (auto split: option.splits)
qed

lemma rows_column:
  assumes "j < 10"
  shows "map (\<lambda>(v, h). v ! j) (filter (\<lambda>(v, h). h = k) (fecha_hora (dropna (data_frame N fechas filas)))) =
         map (\<lambda>i. N (column j filas) ! i) (in_hour fechas (length filas) k)"
proof -
  have u: "[0..<10] ! j = j" using assms nth_upt [of 0 j 10] by simp
  have l: "j < length [0..<10]" using assms by simp
  have c: "\<And>i. map (\<lambda>j. N (column j filas) ! i) [0..<10] ! j = N (column j filas) ! i"
    using nth_map [OF l, of "\<lambda>j. N (column j filas) ! i" for i] by (simp only: u)
  have "\<And>is. map (\<lambda>(v, h). v ! j) (filter (\<lambda>(v, h). h = k)
            (concat (map (\<lambda>i. case hour_at fechas i of None \<Rightarrow> []
                      | Some h \<Rightarrow> [(map (\<lambda>j. N (column j filas) ! i) [0..<10], h)]) is))) =
         map (\<lambda>i. N (column j filas) ! i) (filter (\<lambda>i. hour_at fechas i = Some k) is)"
  proof -
    fix "is" :: "nat list"
    show "map (\<lambda>(v, h). v ! j) (filter (\<lambda>(v, h). h = k)
            (concat (map (\<lambda>i. case hour_at fechas i of None \<Rightarrow> []
                      | Some h \<Rightarrow> [(map (\<lambda>j. N (column j filas) ! i) [0..<10], h)]) is))) =
         map (\<lambda>i. N (column j filas) ! i) (filter (\<lambda>i. hour_at fechas i = Some k) is)"
      by (induction "is") (auto simp: c split: option.splits)
  qed
  then show ?thesis unfolding rows_eq in_hour_def .
qed

lemma mean_eq:
  "mean M (map (\<lambda>i. N (column j filas) ! i) is) =
     (if present N j filas is = [] then None else M (present N j filas is))"
proof -
  have "[v. Some v \<leftarrow> map (\<lambda>i. N (column j filas) ! i) is] = present N j filas is"
    unfolding present_def by (induction "is") (auto split: option.splits)
  then show ?thesis by (simp add: mean_def Let_def)
qed

lemma hourly_eq:
  assumes "D (column 10 filas) = Inr fechas"
  shows "hourly N D M filas =
     Inr (map (\<lambda>k. (k, map (\<lambda>j. if present N j filas (in_hour fechas (length filas) k) = [] then None
                               else M (present N j filas (in_hour fechas (length filas) k))) [0..<10]))
              (sort (remdups (map snd (fecha_hora (dropna (data_frame N fechas filas)))))))"
proof -
  have "\<And>k. map (\<lambda>j. mean M (map (\<lambda>(v, h). v ! j)
                 (filter (\<lambda>(v, h). h = k) (fecha_hora (dropna (data_frame N fechas filas)))))) [0..<10]
           = map (\<lambda>j. if present N j filas (in_hour fechas (length filas) k) = [] then None
                       else M (present N j filas (in_hour fechas (length filas) k))) [0..<10]"
    by (rule map_cong) (simp_all add: rows_column mean_eq)
  then show ?thesis
    unfolding hourly_def groupby_mean_def using assms by (simp add: bind_err_def)
qed

lemma hourly_Inr:
  "hourly N D M filas = Inr rows \<longleftrightarrow>
     (\<exists>fechas. D (column 10 filas) = Inr fechas \<and>
        rows = groupby_mean M (fecha_hora (dropna (data_frame N fechas filas))))"
  unfolding hourly_def bind_err_def by (cases "D (column 10 filas)") auto

lemma groupby_keys:
  "map fst (groupby_mean M df) = sort (remdups (map snd df))"
  by (simp add: groupby_mean_def comp_def)

lemma groupby_keys_sorted: "sorted_wrt (<) (map fst (groupby_mean M df))"
  unfolding groupby_keys by (simp add: strict_sorted_iff)

lemma floor_h_bounds: "floor_h t \<le> t \<and> t < floor_h t + 3600000000000 \<and> floor_h t mod 3600000000000 = 0"
  unfolding floor_h_def by (simp add: mod_diff_left_eq)

lemma map_index: "map (\<lambda>i. g (xs ! i)) [0..<length xs] = map g xs"
proof -
  have "map g (map (\<lambda>i. xs ! i) [0..<length xs]) = map g xs" by (simp only: map_nth)
  then show ?thesis by (simp add: comp_def)
qed

lemma data_frame_cellwise:
  "data_frame (map n) (map d (column 10 filas)) filas =
     map (\<lambda>f. (map (\<lambda>j. n (f ! j)) [0..<10], d (f ! 10))) filas"
proof -
  have "map (\<lambda>i. (map (\<lambda>j. map n (column j filas) ! i) [0..<10], map d (column 10 filas) ! i))
            [0..<length filas]
        = map (\<lambda>i. (map (\<lambda>j. n (filas ! i ! j)) [0..<10], d (filas ! i ! 10))) [0..<length filas]"
    by (rule map_cong) (simp_all add: column_def)
  also have "\<dots> = map (\<lambda>f. (map (\<lambda>j. n (f ! j)) [0..<10], d (f ! 10))) filas"
    by (rule map_index)
  finally show ?thesis unfolding data_frame_def .
qed

lemma rows_cellwise:
  "fecha_hora (dropna (map (\<lambda>f. (g f, d (f ! 10))) filas)) =
     concat (map (\<lambda>f. case d (f ! 10) of None \<Rightarrow> [] | Some t \<Rightarrow> [(g f, floor_h t)]) filas)"
  by (induction filas) (auto simp: fecha_hora_def dropna_def split: option.splits)

lemma hourly_cellwise:
  "hourly (map n) (\<lambda>c. Inr (map d c)) M filas =
     Inr (groupby_mean M
       (concat (map (\<lambda>f. case d (f ! 10) of None \<Rightarrow> []
                        | Some t \<Rightarrow> [(map (\<lambda>j. n (f ! j)) [0..<10], floor_h t)]) filas)))"
  unfolding hourly_def bind_err_def
  using rows_cellwise [of "\<lambda>f. map (\<lambda>j. n (f ! j)) [0..<10]" d filas]
  by (simp add: data_frame_cellwise)

lemma mean_mset:
  assumes "\<forall>vs ws. mset vs = mset ws \<longrightarrow> M vs = M ws" and "mset xs = mset ys"
  shows "mean M xs = mean M ys"
proof -
  let ?f = "\<lambda>x::'a option. case x of None \<Rightarrow> [] | Some v \<Rightarrow> [v]"
  have "mset (concat (map ?f xs)) = (\<Sum>x\<in>#mset xs. mset (?f x))"
    by (induction xs) auto
  moreover have "mset (concat (map ?f ys)) = (\<Sum>x\<in>#mset ys. mset (?f x))"
    by (induction ys) auto
  ultimately have m: "mset (concat (map ?f xs)) = mset (concat (map ?f ys))"
    using assms(2) by simp
  then have "M (concat (map ?f xs)) = M (concat (map ?f ys))"
    using assms(1) by blast
  moreover have "concat (map ?f xs) = [] \<longleftrightarrow> concat (map ?f ys) = []"
    using m by (metis mset_zero_iff)
  ultimately show ?thesis unfolding mean_def Let_def by presburger
qed

lemma groupby_mean_mset:
  assumes "\<forall>vs ws. mset vs = mset ws \<longrightarrow> M vs = M ws" and "mset df = mset df'"
  shows "groupby_mean M df = groupby_mean M df'"
proof -
  have "set (map snd df) = set (map snd df')"
    using assms(2) by (metis mset_eq_setD mset_map)
  then have k: "sort (remdups (map snd df)) = sort (remdups (map snd df'))"
    by (simp only: sorted_list_of_set_sort_remdups [symmetric])
  have "\<And>k j. mset (map (\<lambda>(v, h). v ! j) (filter (\<lambda>(v, h). h = k) df)) =
               mset (map (\<lambda>(v, h). v ! j) (filter (\<lambda>(v, h). h = k) df'))"
    using assms(2) by (simp only: mset_map mset_filter)
  then have "\<And>k j. mean M (map (\<lambda>(v, h). v ! j) (filter (\<lambda>(v, h). h = k) df)) =
                    mean M (map (\<lambda>(v, h). v ! j) (filter (\<lambda>(v, h). h = k) df'))"
    by (rule mean_mset [OF assms(1)])
  then show ?thesis unfolding groupby_mean_def k by simp
qed

lemma mset_concat_map:
  "mset xs = mset ys \<Longrightarrow> mset (concat (map f xs)) = mset (concat (map f ys))"
proof -
  assume a: "mset xs = mset ys"
  have "\<And>zs. mset (concat (map f zs)) = (\<Sum>x\<in>#mset zs. mset (f x))"
  proof -
    fix zs show "mset (concat (map f zs)) = (\<Sum>x\<in>#mset zs. mset (f x))"
      by (induction zs) auto
  qed
  then show ?thesis using a by simp
qed

lemma hourly_mset:
  assumes "\<forall>vs ws. mset vs = mset ws \<longrightarrow> M vs = M ws" and "mset filas' = mset filas"
  shows "hourly (map n) (\<lambda>c. Inr (map d c)) M filas' = hourly (map n) (\<lambda>c. Inr (map d c)) M filas"
  unfolding hourly_cellwise
  using groupby_mean_mset [OF assms(1) mset_concat_map [OF assms(2)]] by simp

lemma hourly_drop_nat:
  assumes "d (r ! 10) = None"
  shows "hourly (map n) (\<lambda>c. Inr (map d c)) M (xs @ r # ys) =
         hourly (map n) (\<lambda>c. Inr (map d c)) M (xs @ ys)"
  unfolding hourly_cellwise using assms by simp

lemma hourly_filter_valid:
  "hourly (map n) (\<lambda>c. Inr (map d c)) M filas =
   hourly (map n) (\<lambda>c. Inr (map d c)) M (filter (\<lambda>f. d (f ! 10) \<noteq> None) filas)"
proof -
  have "concat (map (\<lambda>f. case d (f ! 10) of None \<Rightarrow> []
                        | Some t \<Rightarrow> [(map (\<lambda>j. n (f ! j)) [0..<10], floor_h t)]) filas) =
        concat (map (\<lambda>f. case d (f ! 10) of None \<Rightarrow> []
                        | Some t \<Rightarrow> [(map (\<lambda>j. n (f ! j)) [0..<10], floor_h t)])
                    (filter (\<lambda>f. d (f ! 10) \<noteq> None) filas))"
    by (induction filas) auto
  then show ?thesis unfolding hourly_cellwise by simp
qed

lemma hourly_cellwise_keys:
  assumes "hourly (map n) (\<lambda>c. Inr (map d c)) M filas = Inr rows" and "(k, ms) \<in> set rows"
  shows "\<exists>f\<in>set filas. \<exists>t. d (f ! 10) = Some t \<and> k = floor_h t"
proof -
  let ?df = "concat (map (\<lambda>f. case d (f ! 10) of None \<Rightarrow> []
                        | Some t \<Rightarrow> [(map (\<lambda>j. n (f ! j)) [0..<10], floor_h t)]) filas)"
  have "rows = groupby_mean M ?df" using assms(1) unfolding hourly_cellwise by simp
  then have "k \<in> set (map fst (groupby_mean M ?df))" using assms(2) by force
  then have "k \<in> set (map snd ?df)" unfolding groupby_keys by simp
  then obtain f t where "f \<in> set filas" "Some t = d (f ! 10)" "k = floor_h t"
    by (auto split: option.splits)
  then show ?thesis by metis
qed

lemma drop_nat_row:
  "groupby_mean M (fecha_hora (dropna (df1 @ (v, None) # df2))) =
   groupby_mean M (fecha_hora (dropna (df1 @ df2)))"
  by (simp add: dropna_def)

lemma sample_mean_mset: "mset vs = mset ws \<Longrightarrow> sample_mean vs = sample_mean ws"
proof -
  assume m: "mset vs = mset ws"
  then have "sum_list vs = sum_list ws" by (metis sum_mset_sum_list)
  moreover have "length vs = length ws" using m by (rule mset_eq_length)
  ultimately show ?thesis by (simp add: sample_mean_def)
qed

lemma in_hour_has_timestamp:
  "i \<in> set (in_hour fechas m k) \<Longrightarrow> i < m \<and> (\<exists>t. fechas ! i = Some t \<and> floor_h t = k)"
  by (auto simp: in_hour_def hour_at_def)

lemma present_empty:
  "present N j filas is = [] \<longleftrightarrow> (\<forall>i\<in>set is. N (column j filas) ! i = None)"
  unfolding present_def by (induction "is") (auto split: option.splits)

lemma set_map_pair: "(k, ms) \<in> set (map (\<lambda>k. (k, g k)) ks) \<longleftrightarrow> k \<in> set ks \<and> ms = g k"
  by (induction ks) auto

lemma hourly_returns:
  assumes "D (column 10 filas) = Inr fechas"
  shows "\<exists>rows. hourly N D M filas = Inr rows"
  using assms by (simp add: hourly_def bind_err_def)

lemma hourly_rows:
  assumes "D (column 10 filas) = Inr fechas" and "hourly N D M filas = Inr rows"
  shows "(\<forall>k. (\<exists>ms. (k, ms) \<in> set rows) \<longleftrightarrow> (\<exists>i<length filas. hour_at fechas i = Some k)) \<and>
     (\<forall>k ms. (k, ms) \<in> set rows \<longrightarrow>
        ms = map (\<lambda>j. if present N j filas (in_hour fechas (length filas) k) = [] then None
                       else M (present N j filas (in_hour fechas (length filas) k))) [0..<10])"
proof -
  define keys where "keys = sort (remdups (map snd (fecha_hora (dropna (data_frame N fechas filas)))))"
  define cells where "cells = (\<lambda>k. map (\<lambda>j. if present N j filas (in_hour fechas (length filas) k) = [] then None
                       else M (present N j filas (in_hour fechas (length filas) k))) [0..<10])"
  have "hourly N D M filas = Inr (map (\<lambda>k. (k, cells k)) keys)"
    unfolding keys_def cells_def
    by (rule hourly_eq [where D = D and filas = filas and fechas = fechas and N = N and M = M,
          OF assms(1)])
  then have rows: "rows = map (\<lambda>k. (k, cells k)) keys" using assms(2) by simp
  have ks: "set keys = {k. \<exists>i<length filas. hour_at fechas i = Some k}"
    unfolding keys_def using set_rows_keys [of N fechas filas] by simp
  have a: "\<forall>k. (\<exists>ms. (k, ms) \<in> set rows) \<longleftrightarrow> (\<exists>i<length filas. hour_at fechas i = Some k)"
    unfolding rows set_map_pair ks by simp
  have b: "\<forall>k ms. (k, ms) \<in> set rows \<longrightarrow> ms = cells k"
    unfolding rows set_map_pair by simp
  show ?thesis using a b unfolding cells_def by (intro conjI)
qed


text \<open>
  C4 (as stated). Two records of the same hour whose timestamps are written in two
  formats: line 79 reads the format off the first value of the column and turns the
  value of the other format into NaT, so the one row holds the numbers of whichever
  record comes first. The table depends on the order of the records.
\<close>

theorem order_changes_table:
  "hourly (map sample_numeric) first_format_datetime sample_mean
     [[''270'', ''3'', ''268'', ''1013.2'', ''56.1'', ''20'', ''12.3'', ''0.0'', ''0.0'',
       ''512'', ''2024-01-01T10:15:00'', ''0''],
      [''270'', ''1'', ''268'', ''1013.2'', ''56.1'', ''22'', ''12.3'', ''0.0'', ''0.0'',
       ''512'', ''01/01/2024 10:45:00'', ''0'']]
     = Inr [(1704103200000000000,
             [None, Some 3, None, None, None, Some 20, None, None, None, None])] \<and>
   hourly (map sample_numeric) first_format_datetime sample_mean
     [[''270'', ''1'', ''268'', ''1013.2'', ''56.1'', ''22'', ''12.3'', ''0.0'', ''0.0'',
       ''512'', ''01/01/2024 10:45:00'', ''0''],
      [''270'', ''3'', ''268'', ''1013.2'', ''56.1'', ''20'', ''12.3'', ''0.0'', ''0.0'',
       ''512'', ''2024-01-01T10:15:00'', ''0'']]
     = Inr [(1704103200000000000,
             [None, Some 1, None, None, None, Some 22, None, None, None, None])] \<and>
   hourly (map sample_numeric) first_format_datetime sample_mean
     [[''270'', ''3'', ''268'', ''1013.2'', ''56.1'', ''20'', ''12.3'', ''0.0'', ''0.0'',
       ''512'', ''2024-01-01T10:15:00'', ''0''],
      [''270'', ''1'', ''268'', ''1013.2'', ''56.1'', ''22'', ''12.3'', ''0.0'', ''0.0'',
       ''512'', ''01/01/2024 10:45:00'', ''0'']]
   \<noteq> hourly (map sample_numeric) first_format_datetime sample_mean
     [[''270'', ''1'', ''268'', ''1013.2'', ''56.1'', ''22'', ''12.3'', ''0.0'', ''0.0'',
       ''512'', ''01/01/2024 10:45:00'', ''0''],
      [''270'', ''3'', ''268'', ''1013.2'', ''56.1'', ''20'', ''12.3'', ''0.0'', ''0.0'',
       ''512'', ''2024-01-01T10:15:00'', ''0'']]"
proof -
  let ?a = "[''270'', ''3'', ''268'', ''1013.2'', ''56.1'', ''20'', ''12.3'', ''0.0'', ''0.0'',
             ''512'', ''2024-01-01T10:15:00'', ''0'']"
  let ?b = "[''270'', ''1'', ''268'', ''1013.2'', ''56.1'', ''22'', ''12.3'', ''0.0'', ''0.0'',
             ''512'', ''01/01/2024 10:45:00'', ''0'']"
  have 1: "hourly (map sample_numeric) first_format_datetime sample_mean [?a, ?b]
     = Inr [(1704103200000000000,
             [None, Some 3, None, None, None, Some 20, None, None, None, None])]"
    by code_simp
  have 2: "hourly (map sample_numeric) first_format_datetime sample_mean [?b, ?a]
     = Inr [(1704103200000000000,
             [None, Some 1, None, None, None, Some 22, None, None, None, None])]"
    by code_simp
  have 3: "hourly (map sample_numeric) first_format_datetime sample_mean [?a, ?b]
     \<noteq> hourly (map sample_numeric) first_format_datetime sample_mean [?b, ?a]"
    unfolding 1 2 by simp
  from 1 2 3 show ?thesis by (intro conjI)
qed

text \<open>
  C4 (amended). Whenever a table is returned, by \<open>hourly\<close> or by \<open>procesar_buffer\<close>, its
  hours are strictly ascending, so no hour appears twice. When both column conversions
  act cell by cell and the mean does not depend on the order of its numbers, the result
  does not depend on the order of the records, nor on the order of the lines.
\<close>

theorem hourly_order:
  "(\<forall>rows. hourly N D M filas = Inr rows \<longrightarrow>
      sorted_wrt (<) (map fst rows) \<and> distinct (map fst rows)) \<and>
   (\<forall>rows. procesar_buffer N D M lines = Inr rows \<longrightarrow>
      sorted_wrt (<) (map fst rows) \<and> distinct (map fst rows)) \<and>
   ((\<forall>vs ws. mset vs = mset ws \<longrightarrow> M vs = M ws) \<longrightarrow>
      (\<forall>filas'. mset filas' = mset filas \<longrightarrow>
         hourly (map n) (\<lambda>c. Inr (map d c)) M filas' =
         hourly (map n) (\<lambda>c. Inr (map d c)) M filas) \<and>
      (\<forall>lines'. mset lines' = mset lines \<longrightarrow>
         procesar_buffer (map n) (\<lambda>c. Inr (map d c)) M lines' =
         procesar_buffer (map n) (\<lambda>c. Inr (map d c)) M lines))"
proof (intro conjI allI impI)
  fix rows assume "hourly N D M filas = Inr rows"
  then obtain df where r: "rows = groupby_mean M df" unfolding hourly_Inr by blast
  show "sorted_wrt (<) (map fst rows)" unfolding r by (rule groupby_keys_sorted)
  then show "distinct (map fst rows)" by (simp add: strict_sorted_iff)
next
  fix rows assume "procesar_buffer N D M lines = Inr rows"
  then have "hourly N D M (records lines) = Inr rows"
    by (simp add: procesar_buffer_eq split: if_splits)
  then obtain df where r: "rows = groupby_mean M df" unfolding hourly_Inr by blast
  show "sorted_wrt (<) (map fst rows)" unfolding r by (rule groupby_keys_sorted)
  then show "distinct (map fst rows)" by (simp add: strict_sorted_iff)
next
  fix filas' assume M: "\<forall>vs ws. mset vs = mset ws \<longrightarrow> M vs = M ws"
    and m: "mset filas' = mset filas"
  show "hourly (map n) (\<lambda>c. Inr (map d c)) M filas' = hourly (map n) (\<lambda>c. Inr (map d c)) M filas"
    using M m by (rule hourly_mset)
next
  fix lines' assume M: "\<forall>vs ws. mset vs = mset ws \<longrightarrow> M vs = M ws"
    and m: "mset lines' = mset lines"
  let ?g = "\<lambda>l. case parse_line l of Inl e \<Rightarrow> None | Inr x \<Rightarrow> x"
  have s: "set lines' = set lines" using m by (rule mset_eq_setD)
  have "mset (map ?g lines') = mset (map ?g lines)" using m by (simp only: mset_map)
  then have t: "mset (records lines') = mset (records lines)"
    unfolding records_def truthy_def by (rule mset_concat_map)
  have h: "hourly (map n) (\<lambda>c. Inr (map d c)) M (records lines') =
           hourly (map n) (\<lambda>c. Inr (map d c)) M (records lines)"
    using M t by (rule hourly_mset)
  have e: "records lines' = [] \<longleftrightarrow> records lines = []"
    using t by (metis mset_zero_iff)
  show "procesar_buffer (map n) (\<lambda>c. Inr (map d c)) M lines' =
        procesar_buffer (map n) (\<lambda>c. Inr (map d c)) M lines"
    unfolding procesar_buffer_eq s using h e by simp
qed

theorem hourly_order_witness:
  "mset [[''270'', ''3'', ''268'', ''1013.2'', ''56.1'', ''22'', ''12.3'', ''0.0'', ''0.0'',
          ''512'', ''2024-01-01T10:45:00'', ''0''],
         [''270'', ''1'', ''268'', ''1013.2'', ''56.1'', ''20'', ''12.3'', ''0.0'', ''0.0'',
          ''512'', ''2024-01-01T09:30:00'', ''0'']]
   = mset [[''270'', ''1'', ''268'', ''1013.2'', ''56.1'', ''20'', ''12.3'', ''0.0'', ''0.0'',
            ''512'', ''2024-01-01T09:30:00'', ''0''],
           [''270'', ''3'', ''268'', ''1013.2'', ''56.1'', ''22'', ''12.3'', ''0.0'', ''0.0'',
            ''512'', ''2024-01-01T10:45:00'', ''0'']] \<and>
   hourly (map sample_numeric) (\<lambda>c. Inr (map sample_datetime c)) sample_mean
        [[''270'', ''3'', ''268'', ''1013.2'', ''56.1'', ''22'', ''12.3'', ''0.0'', ''0.0'',
          ''512'', ''2024-01-01T10:45:00'', ''0''],
         [''270'', ''1'', ''268'', ''1013.2'', ''56.1'', ''20'', ''12.3'', ''0.0'', ''0.0'',
          ''512'', ''2024-01-01T09:30:00'', ''0'']]
   = hourly (map sample_numeric) (\<lambda>c. Inr (map sample_datetime c)) sample_mean
          [[''270'', ''1'', ''268'', ''1013.2'', ''56.1'', ''20'', ''12.3'', ''0.0'', ''0.0'',
            ''512'', ''2024-01-01T09:30:00'', ''0''],
           [''270'', ''3'', ''268'', ''1013.2'', ''56.1'', ''22'', ''12.3'', ''0.0'', ''0.0'',
            ''512'', ''2024-01-01T10:45:00'', ''0'']] \<and>
   hourly (map sample_numeric) (\<lambda>c. Inr (map sample_datetime c)) sample_mean
        [[''270'', ''3'', ''268'', ''1013.2'', ''56.1'', ''22'', ''12.3'', ''0.0'', ''0.0'',
          ''512'', ''2024-01-01T10:45:00'', ''0''],
         [''270'', ''1'', ''268'', ''1013.2'', ''56.1'', ''20'', ''12.3'', ''0.0'', ''0.0'',
          ''512'', ''2024-01-01T09:30:00'', ''0'']]
   = Inr [(1704099600000000000, [None, Some 1, None, None, None, Some 20, None, None, None, None]),
          (1704103200000000000, [None, Some 3, None, None, None, Some 22, None, None, None, None])] \<and>
   sorted_wrt (<) (map fst
     [(1704099600000000000 :: int, [None, Some 1, None, None, None, Some 20, None, None, None, None :: rat option]),
      (1704103200000000000, [None, Some 3, None, None, None, Some 22, None, None, None, None])])"
proof -
  let ?a = "[''270'', ''3'', ''268'', ''1013.2'', ''56.1'', ''22'', ''12.3'', ''0.0'', ''0.0'',
          ''512'', ''2024-01-01T10:45:00'', ''0'']"
  let ?b = "[''270'', ''1'', ''268'', ''1013.2'', ''56.1'', ''20'', ''12.3'', ''0.0'', ''0.0'',
          ''512'', ''2024-01-01T09:30:00'', ''0'']"
  let ?rows = "[(1704099600000000000 :: int, [None, Some 1, None, None, None, Some 20, None, None, None, None :: rat option]),
      (1704103200000000000, [None, Some 3, None, None, None, Some 22, None, None, None, None])]"
  have M: "\<forall>vs ws. mset vs = mset ws \<longrightarrow> sample_mean vs = sample_mean ws"
    using sample_mean_mset by blast
  have 1: "mset [?a, ?b] = mset [?b, ?a]" by (simp add: add_mset_commute)
  have 2: "hourly (map sample_numeric) (\<lambda>c. Inr (map sample_datetime c)) sample_mean [?a, ?b]
           = hourly (map sample_numeric) (\<lambda>c. Inr (map sample_datetime c)) sample_mean [?b, ?a]"
    using hourly_order [of _ _ sample_mean "[?b, ?a]" _ sample_numeric sample_datetime] M 1
    by blast
  have 3: "hourly (map sample_numeric) (\<lambda>c. Inr (map sample_datetime c)) sample_mean [?a, ?b]
   = Inr ?rows"
    by code_simp
  have 4: "sorted_wrt (<) (map fst ?rows)"
    using hourly_order [of "map sample_numeric" "\<lambda>c. Inr (map sample_datetime c)" sample_mean
        "[?a, ?b]"] 3 by blast
  from 1 2 3 4 show ?thesis by (intro conjI)
qed


text \<open>
  C7. When line 79 returns, a table is returned, with a row for every hour that has a
  record, whatever the numeric fields of its records are. In the row of hour \<open>k\<close>, field
  \<open>j\<close> is the mean that pandas computes of the numbers that the records of that hour
  have in field \<open>j\<close>, each field on its own; when none of them has a number there, the
  field is missing. A record without a number in a field adds nothing to the numbers of
  that field, and a record with one adds it.
\<close>

theorem missing_values:
  assumes "D (column 10 filas) = Inr fechas"
  shows "\<exists>rows. hourly N D M filas = Inr rows \<and>
     (\<forall>k. (\<exists>ms. (k, ms) \<in> set rows) \<longleftrightarrow> (\<exists>i<length filas. hour_at fechas i = Some k)) \<and>
     (\<forall>(k, ms)\<in>set rows. length ms = 10 \<and>
        (\<forall>j<10.
           ((\<forall>i\<in>set (in_hour fechas (length filas) k). N (column j filas) ! i = None) \<longrightarrow>
              ms ! j = None) \<and>
           (present N j filas (in_hour fechas (length filas) k) \<noteq> [] \<longrightarrow>
              ms ! j = M (present N j filas (in_hour fechas (length filas) k))))) \<and>
     (\<forall>j i is is'. N (column j filas) ! i = None \<longrightarrow>
        present N j filas (is @ i # is') = present N j filas (is @ is')) \<and>
     (\<forall>j i v is is'. N (column j filas) ! i = Some v \<longrightarrow>
        present N j filas (is @ i # is') = present N j filas is @ v # present N j filas is')"
proof -
  obtain rows where rows: "hourly N D M filas = Inr rows"
    using hourly_returns [where D = D and filas = filas and fechas = fechas and N = N and M = M]
      assms by blast
  have keys: "\<forall>k. (\<exists>ms. (k, ms) \<in> set rows) \<longleftrightarrow> (\<exists>i<length filas. hour_at fechas i = Some k)"
    and cells: "\<forall>k ms. (k, ms) \<in> set rows \<longrightarrow>
        ms = map (\<lambda>j. if present N j filas (in_hour fechas (length filas) k) = [] then None
                       else M (present N j filas (in_hour fechas (length filas) k))) [0..<10]"
    using hourly_rows [where D = D and filas = filas and fechas = fechas and N = N and M = M
        and rows = rows] assms rows by blast+
  have fields: "\<forall>(k, ms)\<in>set rows. length ms = 10 \<and>
        (\<forall>j<10.
           ((\<forall>i\<in>set (in_hour fechas (length filas) k). N (column j filas) ! i = None) \<longrightarrow>
              ms ! j = None) \<and>
           (present N j filas (in_hour fechas (length filas) k) \<noteq> [] \<longrightarrow>
              ms ! j = M (present N j filas (in_hour fechas (length filas) k))))"
  proof
    fix row assume row: "row \<in> set rows"
    obtain k ms where km: "row = (k, ms)" by (cases row)
    define p where "p = (\<lambda>j. present N j filas (in_hour fechas (length filas) k))"
    have ms: "ms = map (\<lambda>j. if p j = [] then None else M (p j)) [0..<10]"
      unfolding p_def using cells row km by blast
    then have len: "length ms = 10" by simp
    have cell: "\<forall>j<10.
           ((\<forall>i\<in>set (in_hour fechas (length filas) k). N (column j filas) ! i = None) \<longrightarrow>
              ms ! j = None) \<and>
           (p j \<noteq> [] \<longrightarrow> ms ! j = M (p j))"
    proof (intro allI impI)
      fix j :: nat assume j: "j < 10"
      have u: "[0..<10] ! j = j" using j nth_upt [of 0 j 10] by simp
      have "j < length [0..<10]" using j by simp
      then have "ms ! j = (if p ([0..<10] ! j) = [] then None else M (p ([0..<10] ! j)))"
        unfolding ms by (rule nth_map)
      then have m: "ms ! j = (if p j = [] then None else M (p j))" by (simp only: u)
      have e: "p j = [] \<longleftrightarrow> (\<forall>i\<in>set (in_hour fechas (length filas) k). N (column j filas) ! i = None)"
        unfolding p_def by (rule present_empty)
      show "((\<forall>i\<in>set (in_hour fechas (length filas) k). N (column j filas) ! i = None) \<longrightarrow>
              ms ! j = None) \<and>
           (p j \<noteq> [] \<longrightarrow> ms ! j = M (p j))"
        using m e by simp
    qed
    have res: "length ms = 10 \<and>
        (\<forall>j<10.
           ((\<forall>i\<in>set (in_hour fechas (length filas) k). N (column j filas) ! i = None) \<longrightarrow>
              ms ! j = None) \<and>
           (present N j filas (in_hour fechas (length filas) k) \<noteq> [] \<longrightarrow>
              ms ! j = M (present N j filas (in_hour fechas (length filas) k))))"
      using len cell unfolding p_def by (intro conjI)
    show "case row of (k, ms) \<Rightarrow> length ms = 10 \<and>
        (\<forall>j<10.
           ((\<forall>i\<in>set (in_hour fechas (length filas) k). N (column j filas) ! i = None) \<longrightarrow>
              ms ! j = None) \<and>
           (present N j filas (in_hour fechas (length filas) k) \<noteq> [] \<longrightarrow>
              ms ! j = M (present N j filas (in_hour fechas (length filas) k))))"
      unfolding km prod.case by (rule res)
  qed
  have skip: "\<forall>j i is is'. N (column j filas) ! i = None \<longrightarrow>
        present N j filas (is @ i # is') = present N j filas (is @ is')"
    by (simp add: present_def)
  have add: "\<forall>j i v is is'. N (column j filas) ! i = Some v \<longrightarrow>
        present N j filas (is @ i # is') = present N j filas is @ v # present N j filas is'"
    by (simp add: present_def)
  have "hourly N D M filas = Inr rows \<and>
     (\<forall>k. (\<exists>ms. (k, ms) \<in> set rows) \<longleftrightarrow> (\<exists>i<length filas. hour_at fechas i = Some k)) \<and>
     (\<forall>(k, ms)\<in>set rows. length ms = 10 \<and>
        (\<forall>j<10.
           ((\<forall>i\<in>set (in_hour fechas (length filas) k). N (column j filas) ! i = None) \<longrightarrow>
              ms ! j = None) \<and>
           (present N j filas (in_hour fechas (length filas) k) \<noteq> [] \<longrightarrow>
              ms ! j = M (present N j filas (in_hour fechas (length filas) k))))) \<and>
     (\<forall>j i is is'. N (column j filas) ! i = None \<longrightarrow>
        present N j filas (is @ i # is') = present N j filas (is @ is')) \<and>
     (\<forall>j i v is is'. N (column j filas) ! i = Some v \<longrightarrow>
        present N j filas (is @ i # is') = present N j filas is @ v # present N j filas is')"
    using rows keys fields skip add by (intro conjI)
  then show ?thesis by (rule exI [of _ rows])
qed

theorem missing_values_witness:
  "(\<lambda>c. Inr (map sample_datetime c) :: error + int option list)
     (column 10
       [[''n/a'', ''3'', ''268'', ''1013.2'', ''--'', ''20'', ''12.3'', ''0.0'', ''0.0'',
         ''512'', ''2024-01-01T10:15:00'', ''0''],
        [''n/a'', ''1'', ''268'', ''1013.2'', ''3'', ''22'', ''12.3'', ''0.0'', ''0.0'',
         ''512'', ''2024-01-01T10:45:00'', ''0'']])
     = Inr [Some 1704104100000000000, Some 1704105900000000000] \<and>
   sample_numeric ''--'' = None \<and> sample_numeric ''n/a'' = None \<and>
   hourly (map sample_numeric) (\<lambda>c. Inr (map sample_datetime c)) sample_mean
     [[''n/a'', ''3'', ''268'', ''1013.2'', ''--'', ''20'', ''12.3'', ''0.0'', ''0.0'',
       ''512'', ''2024-01-01T10:15:00'', ''0''],
      [''n/a'', ''1'', ''268'', ''1013.2'', ''3'', ''22'', ''12.3'', ''0.0'', ''0.0'',
       ''512'', ''2024-01-01T10:45:00'', ''0'']]
     = Inr [(1704103200000000000,
             [None, Some 2, None, None, Some 3, Some 21, None, None, None, None])] \<and>
   present (map sample_numeric) 4
     [[''n/a'', ''3'', ''268'', ''1013.2'', ''--'', ''20'', ''12.3'', ''0.0'', ''0.0'',
       ''512'', ''2024-01-01T10:15:00'', ''0''],
      [''n/a'', ''1'', ''268'', ''1013.2'', ''3'', ''22'', ''12.3'', ''0.0'', ''0.0'',
       ''512'', ''2024-01-01T10:45:00'', ''0'']]
     (in_hour [Some 1704104100000000000, Some 1704105900000000000] 2 1704103200000000000) = [3] \<and>
   (\<exists>i<length
       [[''n/a'', ''3'', ''268'', ''1013.2'', ''--'', ''20'', ''12.3'', ''0.0'', ''0.0'',
         ''512'', ''2024-01-01T10:15:00'', ''0''],
        [''n/a'', ''1'', ''268'', ''1013.2'', ''3'', ''22'', ''12.3'', ''0.0'', ''0.0'',
         ''512'', ''2024-01-01T10:45:00'', ''0'']].
      hour_at [Some 1704104100000000000, Some 1704105900000000000] i = Some 1704103200000000000)"
proof -
  let ?a = "[''n/a'', ''3'', ''268'', ''1013.2'', ''--'', ''20'', ''12.3'', ''0.0'', ''0.0'',
             ''512'', ''2024-01-01T10:15:00'', ''0'']"
  let ?b = "[''n/a'', ''1'', ''268'', ''1013.2'', ''3'', ''22'', ''12.3'', ''0.0'', ''0.0'',
             ''512'', ''2024-01-01T10:45:00'', ''0'']"
  let ?D = "\<lambda>c. Inr (map sample_datetime c) :: error + int option list"
  let ?fs = "[Some 1704104100000000000, Some 1704105900000000000 :: int option]"
  let ?row = "(1704103200000000000 :: int,
              [None, Some 2, None, None, Some 3, Some 21, None, None, None, None :: rat option])"
  have 1: "?D (column 10 [?a, ?b]) = Inr ?fs" by code_simp
  have n: "sample_numeric ''--'' = None" "sample_numeric ''n/a'' = None"
    by (simp_all add: sample_numeric_def)
  have 2: "hourly (map sample_numeric) ?D sample_mean [?a, ?b] = Inr [?row]"
    by code_simp
  have 3: "present (map sample_numeric) 4 [?a, ?b] (in_hour ?fs 2 1704103200000000000) = [3]"
    by code_simp
  obtain rows where r: "hourly (map sample_numeric) ?D sample_mean [?a, ?b] = Inr rows"
    and k: "\<forall>k. (\<exists>ms. (k, ms) \<in> set rows) \<longleftrightarrow> (\<exists>i<length [?a, ?b]. hour_at ?fs i = Some k)"
    using missing_values [where D = ?D and filas = "[?a, ?b]" and fechas = ?fs
        and N = "map sample_numeric" and M = sample_mean, OF 1]
    by blast
  have "rows = [?row]" using r unfolding 2 by simp
  then have "\<exists>ms. (1704103200000000000, ms) \<in> set rows" by simp
  then have 4: "\<exists>i<length [?a, ?b]. hour_at ?fs i = Some 1704103200000000000"
    using k by blast
  from 1 n 2 3 4 show ?thesis by (intro conjI)
qed

text \<open>
  C8. A record whose \<^verbatim>\<open>FechaISO\<close> does not become a timestamp is in no hour and in no
  mean: every row is the floor of a timestamp that line 79 gave to a record, the numbers
  of a row are read from the records that have a timestamp in its hour, and a row of the
  frame without a timestamp can be taken out of the frame without any change to the
  table. When line 79 converts cell by cell, such a record can be taken out of the input
  without any change, and the table is that of the records that have a timestamp.
\<close>

theorem bad_timestamp_dropped:
  "(d (r ! 10) = None \<longrightarrow>
      hourly (map n) (\<lambda>c. Inr (map d c)) M (xs @ r # ys) =
      hourly (map n) (\<lambda>c. Inr (map d c)) M (xs @ ys)) \<and>
   hourly (map n) (\<lambda>c. Inr (map d c)) M filas =
     hourly (map n) (\<lambda>c. Inr (map d c)) M (filter (\<lambda>f. d (f ! 10) \<noteq> None) filas) \<and>
   (\<exists>rows. hourly (map n) (\<lambda>c. Inr (map d c)) M filas = Inr rows) \<and>
   (\<forall>rows. hourly (map n) (\<lambda>c. Inr (map d c)) M filas = Inr rows \<longrightarrow>
      (\<forall>(k, ms)\<in>set rows. \<exists>f\<in>set filas. \<exists>t. d (f ! 10) = Some t \<and> k = floor_h t)) \<and>
   (\<forall>rows fechas. D (column 10 filas) = Inr fechas \<and> hourly N D M filas = Inr rows \<longrightarrow>
      (\<forall>(k, ms)\<in>set rows.
         (\<exists>i<length filas. \<exists>t. fechas ! i = Some t \<and> k = floor_h t) \<and>
         (\<forall>i\<in>set (in_hour fechas (length filas) k). \<exists>t. fechas ! i = Some t \<and> floor_h t = k) \<and>
         ms = map (\<lambda>j. mean M (map (\<lambda>i. N (column j filas) ! i)
                                  (in_hour fechas (length filas) k))) [0..<10])) \<and>
   groupby_mean M (fecha_hora (dropna (df1 @ (v, None) # df2))) =
     groupby_mean M (fecha_hora (dropna (df1 @ df2)))"
proof (intro conjI impI allI ballI)
  assume "d (r ! 10) = None"
  then show "hourly (map n) (\<lambda>c. Inr (map d c)) M (xs @ r # ys) =
      hourly (map n) (\<lambda>c. Inr (map d c)) M (xs @ ys)"
    by (rule hourly_drop_nat)
next
  show "hourly (map n) (\<lambda>c. Inr (map d c)) M filas =
     hourly (map n) (\<lambda>c. Inr (map d c)) M (filter (\<lambda>f. d (f ! 10) \<noteq> None) filas)"
    by (rule hourly_filter_valid)
next
  show "\<exists>rows. hourly (map n) (\<lambda>c. Inr (map d c)) M filas = Inr rows"
    unfolding hourly_cellwise by (rule exI) (rule refl)
next
  fix rows row
  assume h: "hourly (map n) (\<lambda>c. Inr (map d c)) M filas = Inr rows" and row: "row \<in> set rows"
  obtain k ms where km: "row = (k, ms)" by (cases row)
  have "\<exists>f\<in>set filas. \<exists>t. d (f ! 10) = Some t \<and> k = floor_h t"
    using hourly_cellwise_keys [OF h] row km by blast
  then show "case row of (k, ms) \<Rightarrow> \<exists>f\<in>set filas. \<exists>t. d (f ! 10) = Some t \<and> k = floor_h t"
    unfolding km prod.case .
next
  fix rows fechas row
  assume a: "D (column 10 filas) = Inr fechas \<and> hourly N D M filas = Inr rows"
    and row: "row \<in> set rows"
  obtain k ms where km: "row = (k, ms)" by (cases row)
  have keys: "\<forall>k. (\<exists>ms. (k, ms) \<in> set rows) \<longleftrightarrow> (\<exists>i<length filas. hour_at fechas i = Some k)"
    and cells: "\<forall>k ms. (k, ms) \<in> set rows \<longrightarrow>
        ms = map (\<lambda>j. if present N j filas (in_hour fechas (length filas) k) = [] then None
                       else M (present N j filas (in_hour fechas (length filas) k))) [0..<10]"
    using hourly_rows [where D = D and filas = filas and fechas = fechas and N = N and M = M
        and rows = rows] a by blast+
  have "\<exists>i<length filas. hour_at fechas i = Some k" using keys row km by blast
  then have 1: "\<exists>i<length filas. \<exists>t. fechas ! i = Some t \<and> k = floor_h t"
    by (auto simp: hour_at_def)
  have 2: "\<forall>i\<in>set (in_hour fechas (length filas) k). \<exists>t. fechas ! i = Some t \<and> floor_h t = k"
    using in_hour_has_timestamp by blast
  have "ms = map (\<lambda>j. if present N j filas (in_hour fechas (length filas) k) = [] then None
                       else M (present N j filas (in_hour fechas (length filas) k))) [0..<10]"
    using cells row km by blast
  then have 3: "ms = map (\<lambda>j. mean M (map (\<lambda>i. N (column j filas) ! i)
                                  (in_hour fechas (length filas) k))) [0..<10]"
    by (simp only: mean_eq)
  have res: "(\<exists>i<length filas. \<exists>t. fechas ! i = Some t \<and> k = floor_h t) \<and>
         (\<forall>i\<in>set (in_hour fechas (length filas) k). \<exists>t. fechas ! i = Some t \<and> floor_h t = k) \<and>
         ms = map (\<lambda>j. mean M (map (\<lambda>i. N (column j filas) ! i)
                                  (in_hour fechas (length filas) k))) [0..<10]"
    using 1 2 3 by (intro conjI)
  show "case row of (k, ms) \<Rightarrow>
         (\<exists>i<length filas. \<exists>t. fechas ! i = Some t \<and> k = floor_h t) \<and>
         (\<forall>i\<in>set (in_hour fechas (length filas) k). \<exists>t. fechas ! i = Some t \<and> floor_h t = k) \<and>
         ms = map (\<lambda>j. mean M (map (\<lambda>i. N (column j filas) ! i)
                                  (in_hour fechas (length filas) k))) [0..<10]"
    unfolding km prod.case by (rule res)
next
  show "groupby_mean M (fecha_hora (dropna (df1 @ (v, None) # df2))) =
     groupby_mean M (fecha_hora (dropna (df1 @ df2)))"
    by (rule drop_nat_row)
qed

theorem bad_timestamp_dropped_witness:
  "sample_datetime ([''270'', ''3'', ''268'', ''1013.2'', ''56.1'', ''22'', ''12.3'', ''0.0'', ''0.0'',
                     ''512'', ''2024-13-41T99:00:00'', ''0''] ! 10) = None \<and>
   hourly (map sample_numeric) (\<lambda>c. Inr (map sample_datetime c)) sample_mean
     ([[''270'', ''1'', ''268'', ''1013.2'', ''56.1'', ''20'', ''12.3'', ''0.0'', ''0.0'',
        ''512'', ''2024-01-01T10:15:00'', ''0'']] @
      [''270'', ''3'', ''268'', ''1013.2'', ''56.1'', ''22'', ''12.3'', ''0.0'', ''0.0'',
       ''512'', ''2024-13-41T99:00:00'', ''0''] # [])
   = hourly (map sample_numeric) (\<lambda>c. Inr (map sample_datetime c)) sample_mean
     ([[''270'', ''1'', ''268'', ''1013.2'', ''56.1'', ''20'', ''12.3'', ''0.0'', ''0.0'',
        ''512'', ''2024-01-01T10:15:00'', ''0'']] @ []) \<and>
   hourly (map sample_numeric) (\<lambda>c. Inr (map sample_datetime c)) sample_mean
     [[''270'', ''1'', ''268'', ''1013.2'', ''56.1'', ''20'', ''12.3'', ''0.0'', ''0.0'',
       ''512'', ''2024-01-01T10:15:00'', ''0''],
      [''270'', ''3'', ''268'', ''1013.2'', ''56.1'', ''22'', ''12.3'', ''0.0'', ''0.0'',
       ''512'', ''2024-13-41T99:00:00'', ''0'']]
   = Inr [(1704103200000000000, [None, Some 1, None, None, None, Some 20, None, None, None, None])]"
proof -
  let ?bad = "[''270'', ''3'', ''268'', ''1013.2'', ''56.1'', ''22'', ''12.3'', ''0.0'', ''0.0'',
               ''512'', ''2024-13-41T99:00:00'', ''0'']"
  let ?ok = "[''270'', ''1'', ''268'', ''1013.2'', ''56.1'', ''20'', ''12.3'', ''0.0'', ''0.0'',
              ''512'', ''2024-01-01T10:15:00'', ''0'']"
  let ?D = "\<lambda>c. Inr (map sample_datetime c) :: error + int option list"
  have 1: "sample_datetime (?bad ! 10) = None" by (simp add: sample_datetime_def)
  have 2: "hourly (map sample_numeric) ?D sample_mean ([?ok] @ ?bad # [])
           = hourly (map sample_numeric) ?D sample_mean ([?ok] @ [])"
    using bad_timestamp_dropped [where d = sample_datetime and r = ?bad and n = sample_numeric
        and M = sample_mean and xs = "[?ok]" and ys = "[]"] 1
    by blast
  have 3: "hourly (map sample_numeric) ?D sample_mean [?ok, ?bad]
     = Inr [(1704103200000000000, [None, Some 1, None, None, None, Some 20, None, None, None, None])]"
    by code_simp
  from 1 2 3 show ?thesis by (intro conjI)
qed

text \<open>
  C9 (as stated). This line yields a record, and its \<^verbatim>\<open>FechaISO\<close> is not a timestamp: after
  line 80 no record is left, nothing is raised, and the result is the empty table.
\<close>

theorem no_timestamp_empty_table:
  "parse_line
     ''Mon 01 Jan 2024 10:00:00,270,3.4,268,1013.2,56.1,+21.5,+12.3,0.0,0.0,512,2024-13-41T99:00:00,X7,0,3F''
   = Inr (Some [''270'', ''3.4'', ''268'', ''1013.2'', ''56.1'', ''21.5'', ''12.3'', ''0.0'', ''0.0'',
                ''512'', ''2024-13-41T99:00:00'', ''0'']) \<and>
   sample_datetime ''2024-13-41T99:00:00'' = None \<and>
   procesar_buffer (map sample_numeric) (\<lambda>c. Inr (map sample_datetime c)) sample_mean
     [''Mon 01 Jan 2024 10:00:00,270,3.4,268,1013.2,56.1,+21.5,+12.3,0.0,0.0,512,2024-13-41T99:00:00,X7,0,3F'']
   = Inr []"
  by code_simp

text \<open>
  C9 (amended). When \<open>parse_line\<close> returns nothing for every line of the input,
  \<open>procesar_buffer\<close> raises \<^verbatim>\<open>ValueError\<close>: an error value of its own, not a table. When the
  lines do yield records, line 79 returns and none of the records has a timestamp,
  \<open>procesar_buffer\<close> returns the empty table and raises nothing.
\<close>

theorem no_records_no_data:
  "((\<forall>l\<in>set lines. parse_line l = Inr None) \<longrightarrow>
      procesar_buffer N D M lines = Inl ValueError \<and>
      (\<forall>rows. procesar_buffer N D M lines \<noteq> Inr rows)) \<and>
   ((\<forall>l\<in>set lines. parse_line l \<noteq> Inl IndexError) \<and> records lines \<noteq> [] \<and>
    D (column 10 (records lines)) = Inr fechas \<and>
    (\<forall>i<length (records lines). fechas ! i = None) \<longrightarrow>
      procesar_buffer N D M lines = Inr [])"
proof (intro conjI impI)
  assume h: "\<forall>l\<in>set lines. parse_line l = Inr None"
  then have "\<not> (\<exists>l\<in>set lines. parse_line l = Inl IndexError)" by auto
  moreover have "records lines = []" unfolding records_empty using h by auto
  ultimately show v: "procesar_buffer N D M lines = Inl ValueError"
    by (simp add: procesar_buffer_eq)
  then show "\<forall>rows. procesar_buffer N D M lines \<noteq> Inr rows" by simp
next
  assume a: "(\<forall>l\<in>set lines. parse_line l \<noteq> Inl IndexError) \<and> records lines \<noteq> [] \<and>
    D (column 10 (records lines)) = Inr fechas \<and>
    (\<forall>i<length (records lines). fechas ! i = None)"
  then have p: "procesar_buffer N D M lines = hourly N D M (records lines)"
    by (simp add: procesar_buffer_eq)
  have "\<forall>i\<in>set [0..<length (records lines)]. hour_at fechas i = None"
    using a by (simp add: hour_at_def)
  then have "concat (map (\<lambda>i. case hour_at fechas i of None \<Rightarrow> []
                      | Some h \<Rightarrow> [(map (\<lambda>j. N (column j (records lines)) ! i) [0..<10], h)])
                 [0..<length (records lines)]) = []"
    by (induction "[0..<length (records lines)]") (simp_all del: upt.simps)
  then have "fecha_hora (dropna (data_frame N fechas (records lines))) = []"
    by (simp only: rows_eq)
  then have "hourly N D M (records lines) = Inr []"
    using a by (simp add: hourly_def bind_err_def groupby_mean_def)
  with p show "procesar_buffer N D M lines = Inr []" by simp
qed

theorem no_records_no_data_witness:
  "parse_line ''Vaisala WXT logger v2'' = Inr None \<and>
   parse_line '''' = Inr None \<and>
   parse_line ''Mon 01 Jan 2024 10:00:00,270,3.4'' = Inr None \<and>
   procesar_buffer (map sample_numeric) (\<lambda>c. Inr (map sample_datetime c)) sample_mean
     [''Vaisala WXT logger v2'', '''', ''Mon 01 Jan 2024 10:00:00,270,3.4''] = Inl ValueError \<and>
   procesar_buffer (map sample_numeric) (\<lambda>c. Inr (map sample_datetime c)) sample_mean []
     = Inl ValueError \<and>
   records [''Vaisala WXT logger v2'',
     ''Tue 02 Jan 2024 11:00:00,181,2.0,180,1009.8,71.0,-1.5,-4.0,0.2,0.1,88,sin fecha,X7,1,A9'']
     = [[''181'', ''2.0'', ''180'', ''1009.8'', ''71.0'', ''-1.5'', ''-4.0'', ''0.2'', ''0.1'', ''88'',
         ''sin fecha'', ''1'']] \<and>
   procesar_buffer (map sample_numeric) (\<lambda>c. Inr (map sample_datetime c)) sample_mean
     [''Vaisala WXT logger v2'',
      ''Tue 02 Jan 2024 11:00:00,181,2.0,180,1009.8,71.0,-1.5,-4.0,0.2,0.1,88,sin fecha,X7,1,A9'']
     = Inr []"
proof -
  let ?D = "\<lambda>c. Inr (map sample_datetime c) :: error + int option list"
  let ?l = "''Tue 02 Jan 2024 11:00:00,181,2.0,180,1009.8,71.0,-1.5,-4.0,0.2,0.1,88,sin fecha,X7,1,A9''"
  let ?r = "[''181'', ''2.0'', ''180'', ''1009.8'', ''71.0'', ''-1.5'', ''-4.0'', ''0.2'', ''0.1'', ''88'',
         ''sin fecha'', ''1'']"
  have 1: "parse_line ''Vaisala WXT logger v2'' = Inr None" by code_simp
  have 2: "parse_line '''' = Inr None" by code_simp
  have 3: "parse_line ''Mon 01 Jan 2024 10:00:00,270,3.4'' = Inr None" by code_simp
  have 4: "\<forall>l\<in>set [''Vaisala WXT logger v2'', '''', ''Mon 01 Jan 2024 10:00:00,270,3.4''].
      parse_line l = Inr None"
    using 1 2 3 by simp
  have 5: "procesar_buffer (map sample_numeric) ?D sample_mean
     [''Vaisala WXT logger v2'', '''', ''Mon 01 Jan 2024 10:00:00,270,3.4''] = Inl ValueError"
    using no_records_no_data [where N = "map sample_numeric" and D = ?D and M = sample_mean
        and lines = "[''Vaisala WXT logger v2'', '''', ''Mon 01 Jan 2024 10:00:00,270,3.4'']"] 4
    by blast
  have 6: "procesar_buffer (map sample_numeric) ?D sample_mean [] = Inl ValueError"
    using no_records_no_data [where N = "map sample_numeric" and D = ?D and M = sample_mean
        and lines = "[]"] by simp
  have p: "parse_line ?l = Inr (Some ?r)" by code_simp
  have 7: "records [''Vaisala WXT logger v2'', ?l] = [?r]"
    using 1 p by (simp add: records_def truthy_def)
  have e: "\<forall>l\<in>set [''Vaisala WXT logger v2'', ?l]. parse_line l \<noteq> Inl IndexError"
    using 1 p by simp
  have c: "?D (column 10 (records [''Vaisala WXT logger v2'', ?l])) = Inr [None]"
    unfolding 7 by (simp add: column_def sample_datetime_def)
  have n: "\<forall>i<length (records [''Vaisala WXT logger v2'', ?l]). [None :: int option] ! i = None"
    unfolding 7 by simp
  have ne: "records [''Vaisala WXT logger v2'', ?l] \<noteq> []" unfolding 7 by simp
  have 8: "procesar_buffer (map sample_numeric) ?D sample_mean [''Vaisala WXT logger v2'', ?l] = Inr []"
    using no_records_no_data [where N = "map sample_numeric" and D = ?D and M = sample_mean
        and lines = "[''Vaisala WXT logger v2'', ?l]" and fechas = "[None]"] e ne c n
    by blast
  from 1 2 3 5 6 7 8 show ?thesis by (intro conjI)
qed

end
